theory Spec2Isabelle
  imports Main
begin

section \<open>Values, identifiers and errors\<close>

text \<open>
  The server is an Express application over MongoDB/Mongoose. Documents are identified by
  ObjectIds; the model uses natural numbers for them. Dates are milliseconds since the
  epoch, and every handler receives the value of \<^verbatim>\<open>new Date()\<close> as the argument \<open>now\<close>.
\<close>

type_synonym object_id = nat
type_synonym date = int

text \<open>A user document as \<^verbatim>\<open>populate(path, "name email")\<close> loads it.\<close>

record user_doc =
  u_id :: object_id
  u_name :: string
  u_email :: string

text \<open>
  What \<^verbatim>\<open>x.toString()\<close> returns for a value that refers to a user: the 24-digit
  hexadecimal text of an ObjectId, or, for a loaded Mongoose document, the inspection text
  of the whole document (\<^verbatim>\<open>Document.prototype.toString\<close> prints the document, not its id).
  The two are never the same string, and the second one is not the text of an ObjectId.
\<close>

datatype id_text = Hex object_id | Inspect user_doc

text \<open>
  The values that the handlers pass where a user is expected: an ObjectId (or the
  hexadecimal string of one, as request bodies carry it), a populated user document,
  a string obtained from \<^verbatim>\<open>toString()\<close>, or \<^verbatim>\<open>null\<close>/\<^verbatim>\<open>undefined\<close>.
\<close>

datatype jsval = ObjectId object_id | UserDoc user_doc | Str id_text | Null

datatype js_error = TypeError | CastError | ValidationError | StoreError

text \<open>\<^verbatim>\<open>x.toString()\<close>; on \<^verbatim>\<open>null\<close> it throws a TypeError.\<close>

fun toString :: "jsval \<Rightarrow> js_error + id_text" where
  "toString (ObjectId i) = Inr (Hex i)"
| "toString (UserDoc d) = Inr (Inspect d)"
| "toString (Str t) = Inr t"
| "toString Null = Inl TypeError"

text \<open>
  Mongoose's cast of a value to a path of type ObjectId: an ObjectId or its hexadecimal
  string is taken as it is, a document is replaced by its \<^verbatim>\<open>_id\<close>, any other string
  is a cast error, and a missing value fails the \<^verbatim>\<open>required\<close> validator.
\<close>

fun castObjectId :: "jsval \<Rightarrow> object_id option" where
  "castObjectId (ObjectId i) = Some i"
| "castObjectId (UserDoc d) = Some (u_id d)"
| "castObjectId (Str (Hex i)) = Some i"
| "castObjectId (Str (Inspect d)) = None"
| "castObjectId Null = None"

text \<open>The double quote character of the message templates.\<close>

definition dq :: string where
  "dq = [CHR 0x22]"

section \<open>Documents\<close>

text \<open>\<^verbatim>\<open>models/Task.js\<close>: CommentSchema and TaskSchema.\<close>

record comment =
  c_id :: object_id
  author :: object_id
  c_text :: string
  c_timestamp :: date

record task =
  t_id :: object_id
  t_title :: string
  t_description :: string
  assignee_id :: object_id
  project_id :: "object_id option"
  t_status :: string
  priority :: string
  dueDate :: date
  createdBy :: object_id
  completedAt :: "date option"
  comments :: "comment list"

text \<open>\<^verbatim>\<open>models/Notification.js\<close>: NotificationSchema, with the creation timestamp.\<close>

record notification =
  n_id :: object_id
  recipient :: object_id
  sender :: object_id
  n_type :: string
  n_title :: string
  message :: string
  relatedTask :: "object_id option"
  relatedProject :: "object_id option"
  isRead :: bool
  readAt :: "date option"
  n_createdAt :: date

text \<open>
  \<^verbatim>\<open>models/ActivityLog.js\<close>: ActivityLogSchema. The request's IP address and user agent
  and the free-form metadata are stored as they come and read by no operation below;
  they are left out of the record.
\<close>

record activity_log =
  a_id :: object_id
  userId :: object_id
  action :: string
  description :: string
  entityType :: "string option"
  entityId :: "object_id option"
  entityName :: "string option"
  relatedEntityType :: "string option"
  relatedEntityId :: "object_id option"
  relatedEntityName :: "string option"
  a_createdAt :: date

text \<open>
  The store: one list per collection, in insertion order, the counter that new ObjectIds
  are drawn from, and whether the store answers operations on the users, projects and
  tasks (\<open>primary_ok\<close>), on the notifications and on the activity logs (\<open>False\<close> is an
  outage: every operation on that collection throws).
\<close>

record project_doc =
  p_id :: object_id
  p_title :: string

record db =
  users :: "user_doc list"
  projects :: "project_doc list"
  tasks :: "task list"
  notifications :: "notification list"
  activityLogs :: "activity_log list"
  next_id :: object_id
  primary_ok :: bool
  notif_ok :: bool
  log_ok :: bool

section \<open>Notification model (models/Notification.js)\<close>

text \<open>The data object that the helpers of \<^verbatim>\<open>utils/notifications.js\<close> build.\<close>

record notification_data =
  d_recipient :: jsval
  d_sender :: jsval
  d_type :: string
  d_title :: string
  d_message :: string
  d_relatedTask :: "object_id option"
  d_relatedProject :: "object_id option"

definition notification_types :: "string list" where
  "notification_types =
     [''task_assigned'', ''task_updated'', ''task_completed'', ''task_reassigned'',
      ''comment_added'', ''project_assigned'']"

text \<open>
  \<^verbatim>\<open>createNotification\<close>: \<^verbatim>\<open>new this(data)\<close> casts the fields and applies the defaults
  (\<open>isRead = false\<close>, no \<open>readAt\<close>); \<^verbatim>\<open>save()\<close> validates (required paths, the enum of
  \<open>type\<close>) and inserts. Each failure is a thrown error.
\<close>

definition createNotification ::
  "date \<Rightarrow> notification_data \<Rightarrow> db \<Rightarrow> js_error + (notification \<times> db)" where
  "createNotification now data s =
     (case castObjectId (d_recipient data) of
        None \<Rightarrow> Inl ValidationError
      | Some r \<Rightarrow>
         (case castObjectId (d_sender data) of
            None \<Rightarrow> Inl ValidationError
          | Some sd \<Rightarrow>
             if d_type data \<in> set notification_types \<and> d_title data \<noteq> [] \<and> d_message data \<noteq> []
             then
               if notif_ok s then
                 let n = \<lparr> n_id = next_id s, recipient = r, sender = sd, n_type = d_type data,
                           n_title = d_title data, message = d_message data,
                           relatedTask = d_relatedTask data,
                           relatedProject = d_relatedProject data,
                           isRead = False, readAt = None, n_createdAt = now \<rparr>
                 in Inr (n, s\<lparr> notifications := notifications s @ [n],
                               next_id := Suc (next_id s) \<rparr>)
               else Inl StoreError
             else Inl ValidationError))"

text \<open>
  \<^verbatim>\<open>save()\<close> of a notification that is already stored: the modified paths \<open>isRead\<close> and
  \<open>readAt\<close> are written to the document with that \<^verbatim>\<open>_id\<close>.
\<close>

definition save_read :: "notification \<Rightarrow> db \<Rightarrow> js_error + db" where
  "save_read n s =
     (if notif_ok s then
        Inr (s\<lparr> notifications :=
                 map (\<lambda>m. if n_id m = n_id n then m\<lparr> isRead := isRead n, readAt := readAt n \<rparr> else m)
                     (notifications s) \<rparr>)
      else Inl StoreError)"

text \<open>The instance method \<^verbatim>\<open>markAsRead\<close>.\<close>

definition markAsRead :: "date \<Rightarrow> notification \<Rightarrow> db \<Rightarrow> js_error + (notification \<times> db)" where
  "markAsRead now n s =
     (if \<not> isRead n then
        (let n' = n\<lparr> isRead := True, readAt := Some now \<rparr>
         in case save_read n' s of Inl e \<Rightarrow> Inl e | Inr s' \<Rightarrow> Inr (n', s'))
      else Inr (n, s))"

text \<open>
  \<^verbatim>\<open>updateMany(query, update)\<close> on a collection: every matching document is updated;
  the result carries the number of documents modified.
\<close>

fun updateMany :: "('a \<Rightarrow> bool) \<Rightarrow> ('a \<Rightarrow> 'a) \<Rightarrow> 'a list \<Rightarrow> nat \<times> 'a list" where
  "updateMany q f [] = (0, [])"
| "updateMany q f (x # xs) =
     (let (k, ys) = updateMany q f xs
      in if q x then (Suc k, f x # ys) else (k, x # ys))"

text \<open>
  \<^verbatim>\<open>deleteMany(query)\<close>: every matching document is removed; the result carries
  \<open>deletedCount\<close>.
\<close>

fun deleteMany :: "('a \<Rightarrow> bool) \<Rightarrow> 'a list \<Rightarrow> nat \<times> 'a list" where
  "deleteMany q [] = (0, [])"
| "deleteMany q (x # xs) =
     (let (k, ys) = deleteMany q xs
      in if q x then (Suc k, ys) else (k, x # ys))"

text \<open>\<^verbatim>\<open>findOne(query)\<close>: the first matching document.\<close>

definition findOne :: "('a \<Rightarrow> bool) \<Rightarrow> 'a list \<Rightarrow> 'a option" where
  "findOne q xs = List.find q xs"

text \<open>\<^verbatim>\<open>findOneAndDelete(query)\<close>: removes the first matching document and returns it.\<close>

fun findOneAndDelete :: "('a \<Rightarrow> bool) \<Rightarrow> 'a list \<Rightarrow> 'a option \<times> 'a list" where
  "findOneAndDelete q [] = (None, [])"
| "findOneAndDelete q (x # xs) =
     (if q x then (Some x, xs)
      else (let (r, ys) = findOneAndDelete q xs in (r, x # ys)))"

text \<open>The static method \<^verbatim>\<open>markMultipleAsRead(recipientId, notificationIds = [])\<close>.\<close>

definition markMultipleAsRead ::
  "date \<Rightarrow> object_id \<Rightarrow> object_id list \<Rightarrow> db \<Rightarrow> js_error + (nat \<times> db)" where
  "markMultipleAsRead now recipientId notificationIds s =
     (let query = (\<lambda>n. recipient n = recipientId \<and> isRead n = False \<and>
                        (if length notificationIds > 0 then n_id n \<in> set notificationIds else True))
      in if notif_ok s then
           (let (k, ns) = updateMany query (\<lambda>n. n\<lparr> isRead := True, readAt := Some now \<rparr>)
                             (notifications s)
            in Inr (k, s\<lparr> notifications := ns \<rparr>))
         else Inl StoreError)"

section \<open>Notification helpers (utils/notifications.js)\<close>

text \<open>
  The helpers read \<^verbatim>\<open>task.title\<close>, \<^verbatim>\<open>task._id\<close> and \<^verbatim>\<open>task.project_id\<close> of the
  task they are given. The title and message of a task notification are chosen by a
  \<^verbatim>\<open>switch\<close> on the type, with a \<^verbatim>\<open>default\<close> branch.
\<close>

definition task_template :: "string \<Rightarrow> task \<Rightarrow> string \<times> string" where
  "task_template type task =
     (if type = ''task_assigned'' then
        (''New Task Assigned'', ''You have been assigned a new task: '' @ dq @ t_title task @ dq)
      else if type = ''task_updated'' then
        (''Task Updated'', ''Task '' @ dq @ t_title task @ dq @ '' has been updated'')
      else if type = ''task_completed'' then
        (''Task Completed'', ''Task '' @ dq @ t_title task @ dq @ '' has been marked as completed'')
      else if type = ''task_reassigned'' then
        (''Task Reassigned'', ''You have been assigned to task: '' @ dq @ t_title task @ dq)
      else
        (''Task Notification'', ''Task '' @ dq @ t_title task @ dq @ '' has been updated''))"

text \<open>The body of the \<^verbatim>\<open>try\<close> block of \<^verbatim>\<open>createTaskNotification\<close>.\<close>

definition createTaskNotification_try ::
  "date \<Rightarrow> jsval \<Rightarrow> jsval \<Rightarrow> task \<Rightarrow> string \<Rightarrow> db \<Rightarrow> js_error + (notification option \<times> db)" where
  "createTaskNotification_try now recipientId senderId task type s =
     (case toString recipientId of
        Inl e \<Rightarrow> Inl e
      | Inr r \<Rightarrow>
         (case toString senderId of
            Inl e \<Rightarrow> Inl e
          | Inr sd \<Rightarrow>
             if r = sd then Inr (None, s)
             else
               (let (title, msg) = task_template type task;
                    notificationData =
                      \<lparr> d_recipient = recipientId, d_sender = senderId, d_type = type,
                        d_title = title, d_message = msg,
                        d_relatedTask = Some (t_id task),
                        d_relatedProject = project_id task \<rparr>
                in case createNotification now notificationData s of
                     Inl e \<Rightarrow> Inl e
                   | Inr (n, s') \<Rightarrow> Inr (Some n, s'))))"

text \<open>
  \<^verbatim>\<open>createTaskNotification\<close>: the \<^verbatim>\<open>catch\<close> logs the error and returns \<^verbatim>\<open>null\<close>.
\<close>

definition createTaskNotification ::
  "date \<Rightarrow> jsval \<Rightarrow> jsval \<Rightarrow> task \<Rightarrow> string \<Rightarrow> db \<Rightarrow> notification option \<times> db" where
  "createTaskNotification now recipientId senderId task type s =
     (case createTaskNotification_try now recipientId senderId task type s of
        Inl error \<Rightarrow> (None, s)
      | Inr res \<Rightarrow> res)"

definition createCommentNotification_try ::
  "date \<Rightarrow> jsval \<Rightarrow> jsval \<Rightarrow> task \<Rightarrow> string \<Rightarrow> db \<Rightarrow> js_error + (notification option \<times> db)" where
  "createCommentNotification_try now recipientId senderId task commentText s =
     (case toString recipientId of
        Inl e \<Rightarrow> Inl e
      | Inr r \<Rightarrow>
         (case toString senderId of
            Inl e \<Rightarrow> Inl e
          | Inr sd \<Rightarrow>
             if r = sd then Inr (None, s)
             else
               (let truncatedText =
                      (if length commentText > 50 then take 50 commentText @ ''...''
                       else commentText);
                    notificationData =
                      \<lparr> d_recipient = recipientId, d_sender = senderId,
                        d_type = ''comment_added'', d_title = ''New Comment on Task'',
                        d_message = ''New comment on '' @ dq @ t_title task @ dq @ '': '' @
                                    dq @ truncatedText @ dq,
                        d_relatedTask = Some (t_id task),
                        d_relatedProject = project_id task \<rparr>
                in case createNotification now notificationData s of
                     Inl e \<Rightarrow> Inl e
                   | Inr (n, s') \<Rightarrow> Inr (Some n, s'))))"

definition createCommentNotification ::
  "date \<Rightarrow> jsval \<Rightarrow> jsval \<Rightarrow> task \<Rightarrow> string \<Rightarrow> db \<Rightarrow> notification option \<times> db" where
  "createCommentNotification now recipientId senderId task commentText s =
     (case createCommentNotification_try now recipientId senderId task commentText s of
        Inl error \<Rightarrow> (None, s)
      | Inr res \<Rightarrow> res)"

section \<open>Notification routes (routes/notifications)\<close>

text \<open>
  A response is the HTTP status and what the JSON body carries. Every handler runs for the
  authenticated user \<^verbatim>\<open>req.user._id\<close>. A path parameter \<^verbatim>\<open>:id\<close> is \<open>None\<close> when its text
  is not an ObjectId (the query then throws a CastError).
\<close>

datatype payload =
    Message string
  | TaskPayload task
  | CommentPayload comment
  | NotificationPayload notification
  | ModifiedCount nat
  | DeletedCount nat

type_synonym response = "nat \<times> payload"

text \<open>\<^verbatim>\<open>PATCH /api/notifications/:id/read\<close>\<close>

definition patch_read :: "date \<Rightarrow> object_id \<Rightarrow> object_id option \<Rightarrow> db \<Rightarrow> response \<times> db" where
  "patch_read now user nid s =
     (case nid of
        None \<Rightarrow> ((400, Message ''Invalid notification ID format''), s)
      | Some i \<Rightarrow>
         if \<not> notif_ok s then ((500, Message ''Server error marking notification as read''), s)
         else
           (case findOne (\<lambda>n. n_id n = i \<and> recipient n = user) (notifications s) of
              None \<Rightarrow> ((404, Message ''Notification not found''), s)
            | Some notification \<Rightarrow>
               (case markAsRead now notification s of
                  Inl e \<Rightarrow> ((500, Message ''Server error marking notification as read''), s)
                | Inr (n', s') \<Rightarrow> ((200, NotificationPayload n'), s'))))"

text \<open>
  \<^verbatim>\<open>PATCH /api/notifications/mark-all-read\<close>; the body's optional \<open>notificationIds\<close>
  is replaced by the empty list when it is missing.
\<close>

definition mark_all_read :: "date \<Rightarrow> object_id \<Rightarrow> object_id list option \<Rightarrow> db \<Rightarrow> response \<times> db" where
  "mark_all_read now user notificationIds s =
     (case markMultipleAsRead now user (case notificationIds of None \<Rightarrow> [] | Some ids \<Rightarrow> ids) s of
        Inl e \<Rightarrow> ((500, Message ''Server error marking notifications as read''), s)
      | Inr (k, s') \<Rightarrow> ((200, ModifiedCount k), s'))"

text \<open>\<^verbatim>\<open>DELETE /api/notifications/:id\<close>\<close>

definition delete_notification :: "object_id \<Rightarrow> object_id option \<Rightarrow> db \<Rightarrow> response \<times> db" where
  "delete_notification user nid s =
     (case nid of
        None \<Rightarrow> ((400, Message ''Invalid notification ID format''), s)
      | Some i \<Rightarrow>
         if \<not> notif_ok s then ((500, Message ''Server error deleting notification''), s)
         else
           (let (found, ns) = findOneAndDelete (\<lambda>n. n_id n = i \<and> recipient n = user) (notifications s)
            in case found of
                 None \<Rightarrow> ((404, Message ''Notification not found''), s)
               | Some notification \<Rightarrow>
                   ((200, Message ''Notification deleted successfully''), s\<lparr> notifications := ns \<rparr>)))"

text \<open>\<^verbatim>\<open>DELETE /api/notifications/clear-all\<close>: removes the user's read notifications.\<close>

definition clear_all :: "object_id \<Rightarrow> db \<Rightarrow> response \<times> db" where
  "clear_all user s =
     (if \<not> notif_ok s then ((500, Message ''Server error clearing notifications''), s)
      else
        (let (k, ns) = deleteMany (\<lambda>n. recipient n = user \<and> isRead n = True) (notifications s)
         in ((200, DeletedCount k), s\<lparr> notifications := ns \<rparr>)))"

section \<open>Activity log (models/ActivityLog.js, routes/activityLogs)\<close>

record activity_data =
  ad_userId :: jsval
  ad_action :: string
  ad_description :: string
  ad_entityType :: "string option"
  ad_entityId :: "object_id option"
  ad_entityName :: "string option"
  ad_relatedEntityType :: "string option"
  ad_relatedEntityId :: "object_id option"
  ad_relatedEntityName :: "string option"

definition activity_actions :: "string list" where
  "activity_actions =
     [''user_login'', ''user_logout'', ''user_register'',
      ''project_created'', ''project_updated'', ''project_deleted'',
      ''task_created'', ''task_updated'', ''task_assigned'', ''task_reassigned'',
      ''task_status_changed'', ''task_completed'', ''task_deleted'', ''task_commented'',
      ''comment_updated'', ''comment_deleted'',
      ''team_member_added'', ''team_member_updated'', ''team_member_removed'']"

definition entity_types :: "string list" where
  "entity_types = [''user'', ''project'', ''task'', ''comment'', ''team_member'']"

definition enum_ok :: "string list \<Rightarrow> string option \<Rightarrow> bool" where
  "enum_ok allowed v = (case v of None \<Rightarrow> True | Some x \<Rightarrow> x \<in> set allowed)"

text \<open>The \<^verbatim>\<open>try\<close> block of \<^verbatim>\<open>logActivity\<close>: construct, validate, insert.\<close>

definition logActivity_try :: "date \<Rightarrow> activity_data \<Rightarrow> db \<Rightarrow> js_error + (activity_log \<times> db)" where
  "logActivity_try now data s =
     (case castObjectId (ad_userId data) of
        None \<Rightarrow> Inl ValidationError
      | Some u \<Rightarrow>
         if ad_action data \<in> set activity_actions \<and> ad_description data \<noteq> [] \<and>
            enum_ok entity_types (ad_entityType data) \<and>
            enum_ok entity_types (ad_relatedEntityType data)
         then
           if log_ok s then
             let activityLog =
                   \<lparr> a_id = next_id s, userId = u, action = ad_action data,
                     description = ad_description data,
                     entityType = ad_entityType data, entityId = ad_entityId data,
                     entityName = ad_entityName data,
                     relatedEntityType = ad_relatedEntityType data,
                     relatedEntityId = ad_relatedEntityId data,
                     relatedEntityName = ad_relatedEntityName data,
                     a_createdAt = now \<rparr>
             in Inr (activityLog, s\<lparr> activityLogs := activityLogs s @ [activityLog],
                                     next_id := Suc (next_id s) \<rparr>)
           else Inl StoreError
         else Inl ValidationError)"

text \<open>\<^verbatim>\<open>logActivity\<close>: the \<^verbatim>\<open>catch\<close> logs the error and returns \<^verbatim>\<open>null\<close>.\<close>

definition logActivity :: "date \<Rightarrow> activity_data \<Rightarrow> db \<Rightarrow> activity_log option \<times> db" where
  "logActivity now data s =
     (case logActivity_try now data s of
        Inl error \<Rightarrow> (None, s)
      | Inr (activityLog, s') \<Rightarrow> (Some activityLog, s'))"

text \<open>
  The ASCII white space characters, which \<^verbatim>\<open>parseInt\<close> skips and \<^verbatim>\<open>trim\<close> strips.
\<close>

definition is_space :: "char \<Rightarrow> bool" where
  "is_space c = (c \<in> set [CHR '' '', CHR 0x09, CHR 0x0A, CHR 0x0B, CHR 0x0C, CHR 0x0D])"

text \<open>
  \<^verbatim>\<open>parseInt(x)\<close> with no radix works on the string \<^verbatim>\<open>String(x)\<close>: it skips leading white
  space, reads an optional sign, takes the radix 16 after a prefix \<^verbatim>\<open>0x\<close> or \<^verbatim>\<open>0X\<close> and
  10 otherwise, and reads the longest run of digits of that radix; anything after the run is
  ignored. With no digit the result is \<^verbatim>\<open>NaN\<close>, here \<open>None\<close>.
\<close>

definition digit_of :: "char \<Rightarrow> nat option" where
  "digit_of c =
     map_of [(CHR ''0'', 0), (CHR ''1'', 1), (CHR ''2'', 2), (CHR ''3'', 3), (CHR ''4'', 4),
             (CHR ''5'', 5), (CHR ''6'', 6), (CHR ''7'', 7), (CHR ''8'', 8), (CHR ''9'', 9),
             (CHR ''a'', 10), (CHR ''b'', 11), (CHR ''c'', 12), (CHR ''d'', 13),
             (CHR ''e'', 14), (CHR ''f'', 15),
             (CHR ''A'', 10), (CHR ''B'', 11), (CHR ''C'', 12), (CHR ''D'', 13),
             (CHR ''E'', 14), (CHR ''F'', 15)] c"

definition is_digit :: "nat \<Rightarrow> char \<Rightarrow> bool" where
  "is_digit radix c = (case digit_of c of None \<Rightarrow> False | Some d \<Rightarrow> d < radix)"

definition digits_value :: "nat \<Rightarrow> string \<Rightarrow> nat" where
  "digits_value radix ds =
     foldl (\<lambda>acc c. acc * radix + (case digit_of c of None \<Rightarrow> 0 | Some d \<Rightarrow> d)) 0 ds"

definition parseInt :: "string \<Rightarrow> int option" where
  "parseInt str =
     (let s0 = dropWhile is_space str;
          negative = (take 1 s0 = ''-'');
          s1 = (if take 1 s0 = ''-'' \<or> take 1 s0 = ''+'' then drop 1 s0 else s0);
          radix = (if take 2 s1 = ''0x'' \<or> take 2 s1 = ''0X'' then 16 else 10);
          s2 = (if radix = 16 then drop 2 s1 else s1);
          ds = takeWhile (is_digit radix) s2
      in if ds = [] then None
         else Some ((if negative then - 1 else 1) * int (digits_value radix ds)))"

text \<open>
  The server's local time zone, as ECMAScript's \<^verbatim>\<open>LocalTZA\<close>: the offset of local time
  from UTC in milliseconds, at a UTC instant and at a local time value.
\<close>

record zone =
  offset_at_utc :: "date \<Rightarrow> int"
  offset_at_local :: "date \<Rightarrow> int"

definition ms_per_day :: int where
  "ms_per_day = 86400000"

text \<open>The largest time value of a \<^verbatim>\<open>Date\<close>; beyond it \<^verbatim>\<open>TimeClip\<close> gives an Invalid Date.\<close>

definition max_time :: int where
  "max_time = 8640000000000000"

text \<open>
  \<^verbatim>\<open>d.setDate(d.getDate() - days)\<close> on a date with time value \<open>t\<close>. The date is taken to
  local time; \<^verbatim>\<open>MakeDay(year, month, getDate() - days)\<close> is the day number of the local
  date less \<open>days\<close>; \<^verbatim>\<open>MakeDate\<close> puts the time within the day back; the result is taken
  back to UTC and clipped. \<open>None\<close> is the Invalid Date.
\<close>

definition setDate_back :: "zone \<Rightarrow> date \<Rightarrow> int \<Rightarrow> date option" where
  "setDate_back z t days =
     (let local = t + offset_at_utc z t;
          day = local div ms_per_day - days;
          newDate = day * ms_per_day + local mod ms_per_day;
          u = newDate - offset_at_local z newDate
      in if abs u \<le> max_time then Some u else None)"

text \<open>
  \<^verbatim>\<open>DELETE /api/activity-logs/cleanup\<close>. \<open>daysToKeep\<close> is the body's value as
  \<^verbatim>\<open>String(daysToKeep)\<close> renders it (for a whole number its decimal numeral), \<open>None\<close> when
  the body has none; the default 90 then takes its place. When \<^verbatim>\<open>parseInt\<close> gives \<^verbatim>\<open>NaN\<close>
  or the cutoff leaves the range of dates, \<open>cutoffDate\<close> is an Invalid Date: the query
  throws a CastError and the handler answers 500.
\<close>

definition cleanup :: "zone \<Rightarrow> date \<Rightarrow> string option \<Rightarrow> db \<Rightarrow> response \<times> db" where
  "cleanup z now daysToKeep s =
     (let days = parseInt (case daysToKeep of None \<Rightarrow> ''90'' | Some v \<Rightarrow> v);
          cutoffDate = (case days of None \<Rightarrow> None | Some d \<Rightarrow> setDate_back z now d)
      in case cutoffDate of
           None \<Rightarrow> ((500, Message ''Server error cleaning up activity logs''), s)
         | Some cutoff \<Rightarrow>
            if \<not> log_ok s then ((500, Message ''Server error cleaning up activity logs''), s)
            else
              (let (k, logs) = deleteMany (\<lambda>a. a_createdAt a < cutoff) (activityLogs s)
               in ((200, DeletedCount k), s\<lparr> activityLogs := logs \<rparr>)))"

section \<open>Task model (models/Task.js)\<close>

definition task_statuses :: "string list" where
  "task_statuses = [''todo'', ''in-progress'', ''completed'']"

definition priorities :: "string list" where
  "priorities = [''low'', ''medium'', ''high'']"

text \<open>
  \<^verbatim>\<open>String.prototype.trim\<close>, on the ASCII white space characters.
\<close>

definition trim :: "string \<Rightarrow> string" where
  "trim str = rev (dropWhile is_space (rev (dropWhile is_space str)))"

text \<open>
  The \<^verbatim>\<open>pre("save")\<close> hook; \<open>modified\<close> is \<^verbatim>\<open>this.isModified("status")\<close>. It runs on
  \<^verbatim>\<open>save()\<close> only: \<^verbatim>\<open>findByIdAndUpdate\<close> does not run it.
\<close>

definition pre_save :: "date \<Rightarrow> bool \<Rightarrow> task \<Rightarrow> task" where
  "pre_save now modified this =
     (if modified then
        (if t_status this = ''completed'' \<and> completedAt this = None
         then this\<lparr> completedAt := Some now \<rparr>
         else if t_status this \<noteq> ''completed'' then this\<lparr> completedAt := None \<rparr>
         else this)
      else this)"

definition findById :: "object_id \<Rightarrow> task list \<Rightarrow> task option" where
  "findById i ts = findOne (\<lambda>t. t_id t = i) ts"

text \<open>Writing a task document back under its \<^verbatim>\<open>_id\<close>.\<close>

definition put_task :: "task \<Rightarrow> task list \<Rightarrow> task list" where
  "put_task x ts = map (\<lambda>t. if t_id t = t_id x then x else t) ts"

text \<open>
  The update document of \<^verbatim>\<open>PUT /api/tasks/:id\<close> is the request body: the fields that the
  create route accepts, \<open>status\<close>, and \<open>completedAt\<close> (absent, \<^verbatim>\<open>null\<close> or a date).
\<close>

record task_updates =
  up_title :: "string option"
  up_description :: "string option"
  up_assignee_id :: "object_id option"
  up_project_id :: "object_id option"
  up_status :: "string option"
  up_priority :: "string option"
  up_dueDate :: "date option"
  up_completedAt :: "date option option"

definition required_text :: "string option \<Rightarrow> bool" where
  "required_text v = (case v of None \<Rightarrow> True | Some x \<Rightarrow> trim x \<noteq> [])"

text \<open>\<^verbatim>\<open>runValidators: true\<close>: the validators of the paths that the update sets.\<close>

definition updates_valid :: "task_updates \<Rightarrow> bool" where
  "updates_valid u =
     (required_text (up_title u) \<and> required_text (up_description u) \<and>
      enum_ok task_statuses (up_status u) \<and> enum_ok priorities (up_priority u))"

definition apply_updates :: "task_updates \<Rightarrow> task \<Rightarrow> task" where
  "apply_updates u t =
     t\<lparr> t_title := (case up_title u of None \<Rightarrow> t_title t | Some x \<Rightarrow> trim x),
        t_description := (case up_description u of None \<Rightarrow> t_description t | Some x \<Rightarrow> trim x),
        assignee_id := (case up_assignee_id u of None \<Rightarrow> assignee_id t | Some x \<Rightarrow> x),
        project_id := (case up_project_id u of None \<Rightarrow> project_id t | Some x \<Rightarrow> Some x),
        t_status := (case up_status u of None \<Rightarrow> t_status t | Some x \<Rightarrow> x),
        priority := (case up_priority u of None \<Rightarrow> priority t | Some x \<Rightarrow> x),
        dueDate := (case up_dueDate u of None \<Rightarrow> dueDate t | Some x \<Rightarrow> x),
        completedAt := (case up_completedAt u of None \<Rightarrow> completedAt t | Some x \<Rightarrow> x) \<rparr>"

text \<open>\<^verbatim>\<open>Task.findByIdAndUpdate(taskId, updates, {new: true, runValidators: true})\<close>\<close>

definition findByIdAndUpdate ::
  "object_id \<Rightarrow> task_updates \<Rightarrow> db \<Rightarrow> js_error + (task option \<times> db)" where
  "findByIdAndUpdate taskId updates s =
     (if \<not> updates_valid updates then Inl ValidationError
      else if \<not> primary_ok s then Inl StoreError
      else
        (case findById taskId (tasks s) of
           None \<Rightarrow> Inr (None, s)
         | Some t \<Rightarrow>
            (let t' = apply_updates updates t
             in Inr (Some t', s\<lparr> tasks := put_task t' (tasks s) \<rparr>))))"

text \<open>
  \<^verbatim>\<open>populate\<close> of a user reference: the referenced document, or \<^verbatim>\<open>null\<close> when there is
  none; of a project reference: its title.
\<close>

definition populate_user :: "db \<Rightarrow> object_id \<Rightarrow> jsval" where
  "populate_user s i =
     (case List.find (\<lambda>u. u_id u = i) (users s) of None \<Rightarrow> Null | Some d \<Rightarrow> UserDoc d)"

definition populated_name :: "jsval \<Rightarrow> string option" where
  "populated_name v = (case v of UserDoc d \<Rightarrow> Some (u_name d) | _ \<Rightarrow> None)"

definition populate_project_title :: "db \<Rightarrow> object_id option \<Rightarrow> string option" where
  "populate_project_title s p =
     (case p of
        None \<Rightarrow> None
      | Some i \<Rightarrow> map_option p_title (List.find (\<lambda>d. p_id d = i) (projects s)))"

text \<open>
  A task whose \<open>project_id\<close> has been populated, as the notification and logging helpers
  see it: a reference to a project that does not exist reads as \<^verbatim>\<open>null\<close>.
\<close>

definition populate_task :: "db \<Rightarrow> task \<Rightarrow> task" where
  "populate_task s t =
     t\<lparr> project_id :=
          (case project_id t of
             None \<Rightarrow> None
           | Some i \<Rightarrow> if List.find (\<lambda>d. p_id d = i) (projects s) \<noteq> None then Some i else None) \<rparr>"

section \<open>Activity logger (utils/activityLogger.js)\<close>

text \<open>The metadata fields that the description templates read.\<close>

record task_metadata =
  assigneeName :: "string option"
  newAssigneeName :: "string option"
  newStatus :: "string option"

text \<open>\<^verbatim>\<open>x || fallback\<close> on an optional string: a missing or empty one gives the fallback.\<close>

definition or_else :: "string option \<Rightarrow> string \<Rightarrow> string" where
  "or_else v fallback = (case v of None \<Rightarrow> fallback | Some x \<Rightarrow> if x = [] then fallback else x)"

definition getTaskDescription :: "string \<Rightarrow> task \<Rightarrow> task_metadata \<Rightarrow> string" where
  "getTaskDescription act task metadata =
     (if act = ''task_created'' then ''Created task '' @ dq @ t_title task @ dq
      else if act = ''task_updated'' then ''Updated task '' @ dq @ t_title task @ dq
      else if act = ''task_assigned'' then
        ''Assigned task '' @ dq @ t_title task @ dq @ '' to '' @
          or_else (assigneeName metadata) ''a user''
      else if act = ''task_reassigned'' then
        ''Reassigned task '' @ dq @ t_title task @ dq @ '' to '' @
          or_else (newAssigneeName metadata) ''a different user''
      else if act = ''task_status_changed'' then
        ''Changed status of task '' @ dq @ t_title task @ dq @ '' to '' @
          or_else (newStatus metadata) ''unknown''
      else if act = ''task_completed'' then
        ''Marked task '' @ dq @ t_title task @ dq @ '' as completed''
      else if act = ''task_deleted'' then ''Deleted task '' @ dq @ t_title task @ dq
      else ''Task action: '' @ act @ '' on '' @ dq @ t_title task @ dq)"

text \<open>
  \<^verbatim>\<open>logTaskActivity\<close>; \<open>projectTitle\<close> is \<^verbatim>\<open>task.project_id.title\<close>, present when the
  caller has populated the project.
\<close>

definition logTaskActivity ::
  "date \<Rightarrow> object_id \<Rightarrow> string \<Rightarrow> task \<Rightarrow> string option \<Rightarrow> task_metadata \<Rightarrow> db
     \<Rightarrow> activity_log option \<times> db" where
  "logTaskActivity now user act task projectTitle metadata s =
     (let activityData =
            \<lparr> ad_userId = ObjectId user, ad_action = act,
              ad_description = getTaskDescription act task metadata,
              ad_entityType = Some ''task'', ad_entityId = Some (t_id task),
              ad_entityName = Some (t_title task),
              ad_relatedEntityType = (if project_id task \<noteq> None then Some ''project'' else None),
              ad_relatedEntityId = project_id task,
              ad_relatedEntityName =
                (if project_id task \<noteq> None
                 then (case projectTitle of None \<Rightarrow> None
                       | Some x \<Rightarrow> if x = [] then None else Some x)
                 else None) \<rparr>
      in logActivity now activityData s)"

definition getCommentDescription :: "string \<Rightarrow> task \<Rightarrow> comment \<Rightarrow> string" where
  "getCommentDescription act task c =
     (let commentPreview = take 30 (c_text c) @ (if length (c_text c) > 30 then ''...'' else [])
      in if act = ''task_commented'' then
           ''Added comment on task '' @ dq @ t_title task @ dq @ '': '' @ dq @ commentPreview @ dq
         else if act = ''comment_updated'' then
           ''Updated comment on task '' @ dq @ t_title task @ dq @ '': '' @ dq @ commentPreview @ dq
         else if act = ''comment_deleted'' then
           ''Deleted comment on task '' @ dq @ t_title task @ dq
         else ''Comment action: '' @ act @ '' on task '' @ dq @ t_title task @ dq)"

definition logCommentActivity ::
  "date \<Rightarrow> object_id \<Rightarrow> string \<Rightarrow> task \<Rightarrow> comment \<Rightarrow> db \<Rightarrow> activity_log option \<times> db" where
  "logCommentActivity now user act task c s =
     (let activityData =
            \<lparr> ad_userId = ObjectId user, ad_action = act,
              ad_description = getCommentDescription act task c,
              ad_entityType = Some ''comment'', ad_entityId = Some (c_id c),
              ad_entityName =
                Some (take 50 (c_text c) @ (if length (c_text c) > 50 then ''...'' else [])),
              ad_relatedEntityType = Some ''task'',
              ad_relatedEntityId = Some (t_id task),
              ad_relatedEntityName = Some (t_title task) \<rparr>
      in logActivity now activityData s)"

section \<open>Task routes (routes/tasks)\<close>

text \<open>
  The handlers below are the route callbacks; the \<^verbatim>\<open>auth\<close> and \<^verbatim>\<open>authorize\<close>
  middleware has already accepted the request and set \<^verbatim>\<open>req.user._id\<close> (\<open>user\<close>).
\<close>

record create_body =
  cb_title :: "string option"
  cb_description :: "string option"
  cb_assignee_id :: "object_id option"
  cb_project_id :: "object_id option"
  cb_priority :: "string option"
  cb_dueDate :: "date option"

definition user_exists :: "db \<Rightarrow> object_id \<Rightarrow> bool" where
  "user_exists s i = (List.find (\<lambda>u. u_id u = i) (users s) \<noteq> None)"

definition project_exists :: "db \<Rightarrow> object_id \<Rightarrow> bool" where
  "project_exists s i = (List.find (\<lambda>d. p_id d = i) (projects s) \<noteq> None)"

text \<open>\<^verbatim>\<open>if (ref) { const doc = await Model.findById(ref); if (!doc) return 404 }\<close>\<close>

definition missing_ref :: "(object_id \<Rightarrow> bool) \<Rightarrow> object_id option \<Rightarrow> bool" where
  "missing_ref exists r = (case r of None \<Rightarrow> False | Some i \<Rightarrow> \<not> exists i)"

text \<open>
  \<^verbatim>\<open>POST /api/tasks\<close>. The task document is validated before it is inserted; the
  required assignee makes \<^verbatim>\<open>if (assignee_id)\<close> true whenever the insertion succeeds, so
  the notification and the \<open>task_assigned\<close> log entry always follow it.
\<close>

definition create_task :: "date \<Rightarrow> object_id \<Rightarrow> create_body \<Rightarrow> db \<Rightarrow> response \<times> db" where
  "create_task now user body s =
     (if or_else (cb_title body) [] = [] \<or> or_else (cb_description body) [] = [] then
        ((400, Message ''Title and description are required''), s)
      else if cb_project_id body \<noteq> None \<and> \<not> primary_ok s then
        ((500, Message ''Server error creating task''), s)
      else if missing_ref (project_exists s) (cb_project_id body) then
        ((404, Message ''Project not found''), s)
      else if cb_assignee_id body \<noteq> None \<and> \<not> primary_ok s then
        ((500, Message ''Server error creating task''), s)
      else if missing_ref (user_exists s) (cb_assignee_id body) then
        ((404, Message ''Assignee not found''), s)
      else
        (case (cb_assignee_id body, cb_dueDate body) of
           (Some a, Some due) \<Rightarrow>
             if trim (or_else (cb_title body) []) \<noteq> [] \<and>
                trim (or_else (cb_description body) []) \<noteq> [] \<and>
                or_else (cb_priority body) ''medium'' \<in> set priorities
             then
               if \<not> primary_ok s then ((500, Message ''Server error creating task''), s)
               else
               (let task = pre_save now True
                      \<lparr> t_id = next_id s, t_title = trim (or_else (cb_title body) []),
                        t_description = trim (or_else (cb_description body) []),
                        assignee_id = a, project_id = cb_project_id body,
                        t_status = ''todo'',
                        priority = or_else (cb_priority body) ''medium'',
                        dueDate = due, createdBy = user, completedAt = None,
                        comments = [] \<rparr>;
                    s1 = s\<lparr> tasks := tasks s @ [task], next_id := Suc (next_id s) \<rparr>;
                    populated = populate_task s1 task;
                    s2 = snd (createTaskNotification now (ObjectId a) (ObjectId user) populated
                                ''task_assigned'' s1);
                    metadata = \<lparr> assigneeName = populated_name (populate_user s2 a),
                                 newAssigneeName = None, newStatus = None \<rparr>;
                    s3 = snd (logTaskActivity now user ''task_assigned'' populated
                                (populate_project_title s2 (project_id populated)) metadata s2)
                in ((201, TaskPayload task), s3))
             else ((400, Message ''Validation error''), s)
         | _ \<Rightarrow> ((400, Message ''Validation error''), s)))"

text \<open>
  The block "Handle task completion" of \<^verbatim>\<open>PUT /api/tasks/:id\<close>, which writes
  \<open>completedAt\<close> into the update document.
\<close>

definition handle_completion :: "date \<Rightarrow> task \<Rightarrow> task_updates \<Rightarrow> task_updates" where
  "handle_completion now existingTask updates =
     (if up_status updates = Some ''completed'' \<and> t_status existingTask \<noteq> ''completed''
      then updates\<lparr> up_completedAt := Some (Some now) \<rparr>
      else if up_status updates \<noteq> Some ''completed''
      then updates\<lparr> up_completedAt := Some None \<rparr>
      else updates)"

definition isReassignment :: "task \<Rightarrow> task_updates \<Rightarrow> bool" where
  "isReassignment existingTask updates =
     (case up_assignee_id updates of
        None \<Rightarrow> False
      | Some a \<Rightarrow> toString (ObjectId a) \<noteq> toString (ObjectId (assignee_id existingTask)))"

text \<open>
  The block "Create notifications for task updates" of the PUT handler. \<open>updatedTask\<close>
  has been populated, so its assignee is read as a user document (or \<^verbatim>\<open>null\<close>).
\<close>

definition put_notify ::
  "date \<Rightarrow> object_id \<Rightarrow> task \<Rightarrow> task_updates \<Rightarrow> task \<Rightarrow> db \<Rightarrow> db" where
  "put_notify now user existingTask updates updatedTask s =
     (case (if isReassignment existingTask updates then up_assignee_id updates else None) of
        Some a \<Rightarrow>
          snd (createTaskNotification now (ObjectId a) (ObjectId user) updatedTask
                 ''task_reassigned'' s)
      | None \<Rightarrow>
          if up_status updates = Some ''completed'' \<and> t_status existingTask \<noteq> ''completed''
          then
            (if toString (ObjectId (createdBy existingTask)) \<noteq> toString (ObjectId user)
             then snd (createTaskNotification now (ObjectId (createdBy existingTask))
                         (ObjectId user) updatedTask ''task_completed'' s)
             else s)
          else
            (let assignee = populate_user s (assignee_id updatedTask)
             in if assignee \<noteq> Null \<and> toString assignee \<noteq> toString (ObjectId user)
                then snd (createTaskNotification now assignee (ObjectId user) updatedTask
                            ''task_updated'' s)
                else s))"

text \<open>The block "Log task activity based on what was updated" of the PUT handler.\<close>

definition put_log ::
  "date \<Rightarrow> object_id \<Rightarrow> task \<Rightarrow> task_updates \<Rightarrow> task \<Rightarrow> db \<Rightarrow> db" where
  "put_log now user existingTask updates updatedTask s =
     (let projectTitle = populate_project_title s (project_id updatedTask);
          name = populated_name (populate_user s (assignee_id updatedTask));
          none = \<lparr> assigneeName = None, newAssigneeName = None, newStatus = None \<rparr>
      in if isReassignment existingTask updates then
           snd (logTaskActivity now user ''task_reassigned'' updatedTask projectTitle
                  (none\<lparr> newAssigneeName := name \<rparr>) s)
         else if up_status updates = Some ''completed'' \<and> t_status existingTask \<noteq> ''completed''
         then
           snd (logTaskActivity now user ''task_completed'' updatedTask projectTitle
                  (none\<lparr> newStatus := Some ''completed'' \<rparr>) s)
         else if or_else (up_status updates) [] \<noteq> [] \<and>
                 up_status updates \<noteq> Some (t_status existingTask)
         then
           snd (logTaskActivity now user ''task_status_changed'' updatedTask projectTitle
                  (none\<lparr> newStatus := up_status updates \<rparr>) s)
         else
           snd (logTaskActivity now user ''task_updated'' updatedTask projectTitle none s))"

text \<open>
  \<^verbatim>\<open>PUT /api/tasks/:id\<close>. The update cannot return \<^verbatim>\<open>null\<close> after the task has been
  found; reading it would throw, which is the last error branch.
\<close>

definition update_task ::
  "date \<Rightarrow> object_id \<Rightarrow> object_id option \<Rightarrow> task_updates \<Rightarrow> db \<Rightarrow> response \<times> db" where
  "update_task now user taskId body s =
     (case taskId of
        None \<Rightarrow> ((400, Message ''Invalid task ID format''), s)
      | Some tid \<Rightarrow>
         if \<not> primary_ok s then ((500, Message ''Server error updating task''), s)
         else
           (case findById tid (tasks s) of
              None \<Rightarrow> ((404, Message ''Task not found''), s)
            | Some existingTask \<Rightarrow>
               if missing_ref (project_exists s) (up_project_id body) then
                 ((404, Message ''Project not found''), s)
               else if missing_ref (user_exists s) (up_assignee_id body) then
                 ((404, Message ''Assignee not found''), s)
               else
                 (let updates = handle_completion now existingTask body
                  in case findByIdAndUpdate tid updates s of
                       Inl e \<Rightarrow>
                         if e = ValidationError then ((400, Message ''Validation error''), s)
                         else ((500, Message ''Server error updating task''), s)
                     | Inr (None, s1) \<Rightarrow> ((500, Message ''Server error updating task''), s1)
                     | Inr (Some updatedTask, s1) \<Rightarrow>
                         (let populated = populate_task s1 updatedTask;
                              s2 = put_notify now user existingTask updates populated s1;
                              s3 = put_log now user existingTask updates populated s2
                          in ((200, TaskPayload updatedTask), s3)))))"

text \<open>\<^verbatim>\<open>PATCH /api/tasks/:id/status\<close>\<close>

definition status_updates :: "date \<Rightarrow> task \<Rightarrow> string \<Rightarrow> task_updates" where
  "status_updates now task status =
     (let updates = \<lparr> up_title = None, up_description = None, up_assignee_id = None,
                      up_project_id = None, up_status = Some status, up_priority = None,
                      up_dueDate = None, up_completedAt = None \<rparr>
      in if status = ''completed'' \<and> t_status task \<noteq> ''completed''
         then updates\<lparr> up_completedAt := Some (Some now) \<rparr>
         else if status \<noteq> ''completed''
         then updates\<lparr> up_completedAt := Some None \<rparr>
         else updates)"

definition patch_notify :: "date \<Rightarrow> object_id \<Rightarrow> task \<Rightarrow> string \<Rightarrow> task \<Rightarrow> db \<Rightarrow> db" where
  "patch_notify now user task status updatedTask s =
     (if status = ''completed'' \<and> t_status task \<noteq> ''completed'' then
        (if toString (ObjectId (createdBy task)) \<noteq> toString (ObjectId user)
         then snd (createTaskNotification now (ObjectId (createdBy task)) (ObjectId user)
                     updatedTask ''task_completed'' s)
         else s)
      else s)"

definition patch_status ::
  "date \<Rightarrow> object_id \<Rightarrow> object_id option \<Rightarrow> string option \<Rightarrow> db \<Rightarrow> response \<times> db" where
  "patch_status now user taskId status s =
     (case status of
        None \<Rightarrow> ((400, Message ''Valid status is required (todo, in-progress, completed)''), s)
      | Some st \<Rightarrow>
         if st \<notin> set task_statuses then
           ((400, Message ''Valid status is required (todo, in-progress, completed)''), s)
         else
           (case taskId of
              None \<Rightarrow> ((400, Message ''Invalid task ID format''), s)
            | Some tid \<Rightarrow>
               if \<not> primary_ok s then ((500, Message ''Server error updating task status''), s)
               else
                 (case findById tid (tasks s) of
                    None \<Rightarrow> ((404, Message ''Task not found''), s)
                  | Some task \<Rightarrow>
                     (case findByIdAndUpdate tid (status_updates now task st) s of
                        Inl e \<Rightarrow> ((500, Message ''Server error updating task status''), s)
                      | Inr (None, s1) \<Rightarrow>
                          ((500, Message ''Server error updating task status''), s1)
                      | Inr (Some updatedTask, s1) \<Rightarrow>
                          ((200, TaskPayload updatedTask),
                           patch_notify now user task st (populate_task s1 updatedTask) s1)))))"

text \<open>
  \<^verbatim>\<open>POST /api/tasks/:id/comments\<close>. \<^verbatim>\<open>notificationRecipients\<close> is a \<^verbatim>\<open>Set\<close> of strings,
  which keeps the order of first insertion.
\<close>

definition set_add :: "'a \<Rightarrow> 'a list \<Rightarrow> 'a list" where
  "set_add x xs = (if x \<in> set xs then xs else xs @ [x])"

text \<open>
  The \<^verbatim>\<open>forEach\<close> over \<^verbatim>\<open>task.comments\<close>, whose authors have been populated by
  \<^verbatim>\<open>task.populate("comments.author", ...)\<close> before: \<^verbatim>\<open>comment.author.toString()\<close> is
  called on the populated value.
\<close>

fun add_commenters :: "id_text \<Rightarrow> jsval list \<Rightarrow> id_text list \<Rightarrow> js_error + id_text list" where
  "add_commenters me [] rs = Inr rs"
| "add_commenters me (a # as) rs =
     (case toString a of
        Inl e \<Rightarrow> Inl e
      | Inr t \<Rightarrow> add_commenters me as (if t \<noteq> me then set_add t rs else rs))"

definition notificationRecipients :: "db \<Rightarrow> object_id \<Rightarrow> task \<Rightarrow> js_error + id_text list" where
  "notificationRecipients s user task =
     (let r0 = [];
          r1 = (if Hex (assignee_id task) \<noteq> Hex user then set_add (Hex (assignee_id task)) r0
                else r0);
          r2 = (if Hex (createdBy task) \<noteq> Hex user then set_add (Hex (createdBy task)) r1
                else r1)
      in add_commenters (Hex user) (map (\<lambda>c. populate_user s (author c)) (comments task)) r2)"

text \<open>The loop "Send notifications".\<close>

fun send_comment_notifications ::
  "date \<Rightarrow> id_text list \<Rightarrow> object_id \<Rightarrow> task \<Rightarrow> string \<Rightarrow> db \<Rightarrow> db" where
  "send_comment_notifications now [] user task txt s = s"
| "send_comment_notifications now (recipientId # rs) user task txt s =
     send_comment_notifications now rs user task txt
       (snd (createCommentNotification now (Str recipientId) (ObjectId user) task txt s))"

definition add_comment ::
  "date \<Rightarrow> object_id \<Rightarrow> object_id option \<Rightarrow> string option \<Rightarrow> db \<Rightarrow> response \<times> db" where
  "add_comment now user taskId text s =
     (if trim (or_else text []) = [] then ((400, Message ''Comment text is required''), s)
      else
        (case taskId of
           None \<Rightarrow> ((400, Message ''Invalid task ID format''), s)
         | Some tid \<Rightarrow>
            if \<not> primary_ok s then ((500, Message ''Server error adding comment''), s)
            else
              (case findById tid (tasks s) of
                 None \<Rightarrow> ((404, Message ''Task not found''), s)
               | Some found \<Rightarrow>
                  (let newComment = \<lparr> c_id = next_id s, author = user,
                                      c_text = trim (or_else text []), c_timestamp = now \<rparr>;
                       task = pre_save now False
                                (found\<lparr> comments := comments found @ [newComment] \<rparr>);
                       s1 = s\<lparr> tasks := put_task task (tasks s), next_id := Suc (next_id s) \<rparr>
                   in case notificationRecipients s1 user task of
                        Inl e \<Rightarrow> ((500, Message ''Server error adding comment''), s1)
                      | Inr recipients \<Rightarrow>
                         (let s2 = send_comment_notifications now recipients user task
                                     (or_else text []) s1;
                              s3 = snd (logCommentActivity now user ''task_commented'' task
                                          newComment s2)
                          in ((201, CommentPayload newComment), s3))))))"

section \<open>Properties and example data\<close>

text \<open>The invariant of a notification: \<open>readAt\<close> is set exactly when \<open>isRead\<close> is true.\<close>

definition read_invariant :: "notification \<Rightarrow> bool" where
  "read_invariant n = ((readAt n \<noteq> None) = isRead n)"

definition store_read_invariant :: "db \<Rightarrow> bool" where
  "store_read_invariant s = list_all read_invariant (notifications s)"

text \<open>The notifications of the other users, as the store holds them.\<close>

definition others :: "object_id \<Rightarrow> db \<Rightarrow> notification list" where
  "others u s = filter (\<lambda>n. recipient n \<noteq> u) (notifications s)"

text \<open>The invariant of a task: \<open>completedAt\<close> is set exactly when the status is completed.\<close>

definition completed_invariant :: "task \<Rightarrow> bool" where
  "completed_invariant t = ((completedAt t \<noteq> None) = (t_status t = ''completed''))"

text \<open>
  A small store: four users, one project, one task assigned to user 1 and created by
  user 2, two notifications and two activity log entries.
\<close>

definition user1 :: user_doc where
  "user1 = \<lparr> u_id = 1, u_name = ''Ana'', u_email = ''ana@example.com'' \<rparr>"

definition user2 :: user_doc where
  "user2 = \<lparr> u_id = 2, u_name = ''Ben'', u_email = ''ben@example.com'' \<rparr>"

definition user3 :: user_doc where
  "user3 = \<lparr> u_id = 3, u_name = ''Cy'', u_email = ''cy@example.com'' \<rparr>"

definition user4 :: user_doc where
  "user4 = \<lparr> u_id = 4, u_name = ''Di'', u_email = ''di@example.com'' \<rparr>"

definition task20 :: task where
  "task20 = \<lparr> t_id = 20, t_title = ''Ship'', t_description = ''Ship it'', assignee_id = 1,
              project_id = Some 10, t_status = ''in-progress'', priority = ''medium'',
              dueDate = 9000, createdBy = 2, completedAt = None, comments = [] \<rparr>"

definition note30 :: notification where
  "note30 = \<lparr> n_id = 30, recipient = 1, sender = 2, n_type = ''task_assigned'',
              n_title = ''New Task Assigned'', message = ''You have been assigned a new task'',
              relatedTask = Some 20, relatedProject = Some 10,
              isRead = False, readAt = None, n_createdAt = 100 \<rparr>"

definition note31 :: notification where
  "note31 = \<lparr> n_id = 31, recipient = 2, sender = 1, n_type = ''task_completed'',
              n_title = ''Task Completed'', message = ''Task has been marked as completed'',
              relatedTask = Some 20, relatedProject = Some 10,
              isRead = True, readAt = Some 150, n_createdAt = 120 \<rparr>"

definition log40 :: activity_log where
  "log40 = \<lparr> a_id = 40, userId = 2, action = ''task_assigned'', description = ''Assigned task'',
             entityType = Some ''task'', entityId = Some 20, entityName = Some ''Ship'',
             relatedEntityType = None, relatedEntityId = None, relatedEntityName = None,
             a_createdAt = 100 \<rparr>"

definition log41 :: activity_log where
  "log41 = log40\<lparr> a_id := 41, a_createdAt := 500 \<rparr>"

definition db0 :: db where
  "db0 = \<lparr> users = [user1, user2, user3, user4],
           projects = [\<lparr> p_id = 10, p_title = ''Launch'' \<rparr>],
           tasks = [task20], notifications = [note30, note31],
           activityLogs = [log40, log41], next_id = 50,
           primary_ok = True, notif_ok = True, log_ok = True \<rparr>"

text \<open>The event types that the \<^verbatim>\<open>switch\<close> of \<^verbatim>\<open>createTaskNotification\<close> names.\<close>

definition known_task_events :: "string list" where
  "known_task_events = [''task_assigned'', ''task_updated'', ''task_completed'', ''task_reassigned'']"

text \<open>
  The part of the store that the primary operations work on: users, projects, tasks and
  whether they are reachable.
\<close>

definition primary_part :: "db \<Rightarrow> user_doc list \<times> project_doc list \<times> task list \<times> bool" where
  "primary_part s = (users s, projects s, tasks s, primary_ok s)"

text \<open>The notifications that a handler has added to the store \<open>s\<close>, given the store after it.\<close>

definition created :: "db \<Rightarrow> db \<Rightarrow> notification list" where
  "created s s' = drop (length (notifications s)) (notifications s')"

text \<open>
  What the completion of a task with creator \<open>c\<close> by the actor \<open>r\<close> is to add: one
  \<open>task_completed\<close> notification from \<open>r\<close> to \<open>c\<close> when they differ, nothing otherwise.
\<close>

definition creator_notified :: "object_id \<Rightarrow> object_id \<Rightarrow> notification list \<Rightarrow> bool" where
  "creator_notified c r ns =
     (if c \<noteq> r
      then (case ns of
              [n] \<Rightarrow> n_type n = ''task_completed'' \<and> recipient n = c \<and> sender n = r
            | _ \<Rightarrow> False)
      else ns = [])"

text \<open>
  More example data: a task assigned to user 1, created by user 2, with earlier comments
  by users 1, 2 and 3; a completed task; update documents.
\<close>

definition task21 :: task where
  "task21 = \<lparr> t_id = 21, t_title = ''Plan'', t_description = ''Plan it'', assignee_id = 1,
              project_id = None, t_status = ''todo'', priority = ''high'',
              dueDate = 9000, createdBy = 2, completedAt = None,
              comments = [\<lparr> c_id = 61, author = 1, c_text = ''first'', c_timestamp = 200 \<rparr>,
                          \<lparr> c_id = 62, author = 2, c_text = ''second'', c_timestamp = 210 \<rparr>,
                          \<lparr> c_id = 63, author = 3, c_text = ''third'', c_timestamp = 220 \<rparr>] \<rparr>"

definition task22 :: task where
  "task22 = \<lparr> t_id = 22, t_title = ''Ship'', t_description = ''Ship it'', assignee_id = 1,
              project_id = None, t_status = ''completed'', priority = ''low'',
              dueDate = 9000, createdBy = 2, completedAt = Some 500, comments = [] \<rparr>"

definition db2 :: db where
  "db2 = db0\<lparr> tasks := [task20, task21, task22] \<rparr>"

definition no_updates :: task_updates where
  "no_updates = \<lparr> up_title = None, up_description = None, up_assignee_id = None,
                  up_project_id = None, up_status = None, up_priority = None,
                  up_dueDate = None, up_completedAt = None \<rparr>"

definition rename_only :: task_updates where
  "rename_only = no_updates\<lparr> up_title := Some ''Shipped'' \<rparr>"

definition complete_only :: task_updates where
  "complete_only = no_updates\<lparr> up_status := Some ''completed'' \<rparr>"

definition complete_and_reassign :: task_updates where
  "complete_and_reassign = no_updates\<lparr> up_status := Some ''completed'', up_assignee_id := Some 3 \<rparr>"

text \<open>A request body for a new task, and an audit record for a login.\<close>

definition new_task_body :: create_body where
  "new_task_body = \<lparr> cb_title = Some ''Deploy'', cb_description = Some ''Deploy it'',
                      cb_assignee_id = Some 1, cb_project_id = None, cb_priority = None,
                      cb_dueDate = Some 9000 \<rparr>"

definition login_activity :: activity_data where
  "login_activity = \<lparr> ad_userId = ObjectId 1, ad_action = ''user_login'',
                       ad_description = ''User logged into the system'',
                       ad_entityType = Some ''user'', ad_entityId = Some 1,
                       ad_entityName = None, ad_relatedEntityType = None,
                       ad_relatedEntityId = None, ad_relatedEntityName = None \<rparr>"

text \<open>The status and completion date of the stored task with a given id.\<close>

definition status_and_date :: "object_id \<Rightarrow> db \<Rightarrow> (string \<times> date option) option" where
  "status_and_date i s = map_option (\<lambda>t. (t_status t, completedAt t)) (findById i (tasks s))"

text \<open>Two time zones with a fixed offset: UTC, and one hour ahead of it.\<close>

definition utc_zone :: zone where
  "utc_zone = \<lparr> offset_at_utc = (\<lambda>t. 0), offset_at_local = (\<lambda>t. 0) \<rparr>"

definition plus_one_hour :: zone where
  "plus_one_hour = \<lparr> offset_at_utc = (\<lambda>t. 3600000), offset_at_local = (\<lambda>t. 3600000) \<rparr>"

section \<open>Facts about the store operations\<close>

lemmas example_defs = db0_def user1_def user2_def user3_def user4_def task20_def note30_def
  note31_def log40_def log41_def task21_def task22_def db2_def no_updates_def

lemmas helper_defs = createTaskNotification_def createTaskNotification_try_def
  createCommentNotification_def createCommentNotification_try_def createNotification_def
  task_template_def notification_types_def dq_def logActivity_def logActivity_try_def
  activity_actions_def entity_types_def enum_ok_def logTaskActivity_def getTaskDescription_def
  logCommentActivity_def getCommentDescription_def or_else_def populate_user_def
  populated_name_def populate_project_title_def populate_task_def

lemmas route_defs = update_task_def patch_status_def add_comment_def create_task_def
  findById_def findOne_def findByIdAndUpdate_def handle_completion_def status_updates_def
  updates_valid_def required_text_def trim_def is_space_def apply_updates_def put_task_def
  put_notify_def put_log_def patch_notify_def isReassignment_def notificationRecipients_def
  set_add_def missing_ref_def user_exists_def project_exists_def pre_save_def task_statuses_def
  priorities_def

lemma updateMany_eq:
  "updateMany q f xs = (length (filter q xs), map (\<lambda>x. if q x then f x else x) xs)"
  by (induction xs) (auto simp: Let_def split: prod.splits)

lemma deleteMany_eq: "deleteMany q xs = (length (filter q xs), filter (\<lambda>x. \<not> q x) xs)"
  by (induction xs) (auto simp: Let_def split: prod.splits)

lemma createNotification_Inr:
  "createNotification now data s = Inr (n, s') \<Longrightarrow>
     isRead n = False \<and> readAt n = None \<and> notifications s' = notifications s @ [n]"
  by (auto simp: createNotification_def Let_def split: option.splits if_splits)

section \<open>Self notifications\<close>

text \<open>
  When the recipient and the sender are the same value, or one is an ObjectId and the
  other the hexadecimal string of the same id, both helpers return \<^verbatim>\<open>null\<close> and leave
  the store as it was: the guard \<^verbatim>\<open>recipientId.toString() === senderId.toString()\<close>
  fires.
\<close>

lemma same_identifier_suppressed:
  "createTaskNotification now r r task type s = (None, s) \<and>
   createCommentNotification now r r task commentText s = (None, s) \<and>
   createTaskNotification now (ObjectId i) (Str (Hex i)) task type s = (None, s) \<and>
   createTaskNotification now (Str (Hex i)) (ObjectId i) task type s = (None, s) \<and>
   createCommentNotification now (ObjectId i) (Str (Hex i)) task commentText s = (None, s) \<and>
   createCommentNotification now (Str (Hex i)) (ObjectId i) task commentText s = (None, s)"
  by (cases r) (simp_all add: createTaskNotification_def createTaskNotification_try_def
      createCommentNotification_def createCommentNotification_try_def)

text \<open>
  Claim C2 fails on the code. The guard compares strings, and the string of a populated
  user document is not the string of that user's id. The PUT handler passes the populated
  assignee of the updated task as the recipient: when user 1 renames a task that is
  assigned to user 1, \<^verbatim>\<open>createTaskNotification\<close> receives the document of user 1 as the
  recipient and the id of user 1 as the sender, and stores a \<open>task_updated\<close> notification
  from user 1 to user 1.
\<close>

theorem populated_recipient_notifies_self:
  "castObjectId (UserDoc user1) = castObjectId (ObjectId 1) \<and>
   map (\<lambda>n. (n_type n, recipient n, sender n))
     (created db2 (snd (createTaskNotification 1000 (UserDoc user1) (ObjectId 1) task20
                          ''task_updated'' db2))) =
     [(''task_updated'', 1, 1)] \<and>
   assignee_id task20 = 1 \<and>
   fst (fst (update_task 1000 1 (Some 20) rename_only db2)) = 200 \<and>
   map (\<lambda>n. (n_type n, recipient n, sender n))
     (created db2 (snd (update_task 1000 1 (Some 20) rename_only db2))) =
     [(''task_updated'', 1, 1)]"
  by (simp add: created_def rename_only_def route_defs helper_defs example_defs Let_def)

lemma createTaskNotification_cases:
  "createTaskNotification now r sd task ty s = (res, s') \<Longrightarrow>
     (res = None \<and> s' = s) \<or>
     (\<exists>n data. res = Some n \<and> createNotification now data s = Inr (n, s'))"
  by (auto simp: createTaskNotification_def createTaskNotification_try_def Let_def
      split: sum.splits if_splits prod.splits)

lemma createCommentNotification_cases:
  "createCommentNotification now r sd task txt s = (res, s') \<Longrightarrow>
     (res = None \<and> s' = s) \<or>
     (\<exists>n data. res = Some n \<and> createNotification now data s = Inr (n, s'))"
  by (auto simp: createCommentNotification_def createCommentNotification_try_def Let_def
      split: sum.splits if_splits prod.splits)

section \<open>The read invariant of notifications\<close>

lemma createNotification_store_inv:
  "createNotification now data s = Inr (n, s') \<Longrightarrow> store_read_invariant s \<Longrightarrow>
     store_read_invariant s' \<and> read_invariant n"
  by (auto simp: store_read_invariant_def read_invariant_def dest!: createNotification_Inr)

lemma list_all_map_keeps:
  "list_all P xs \<Longrightarrow> (\<And>x. P x \<Longrightarrow> P (f x)) \<Longrightarrow> list_all P (map f xs)"
  by (induction xs) auto

lemma save_read_store_inv:
  assumes "save_read n s = Inr s'" and "store_read_invariant s" and "read_invariant n"
  shows "store_read_invariant s'"
proof -
  let ?f = "\<lambda>m. if n_id m = n_id n then m\<lparr> isRead := isRead n, readAt := readAt n \<rparr> else m"
  from assms(1) have "notifications s' = map ?f (notifications s)"
    by (auto simp: save_read_def split: if_splits)
  moreover have "list_all read_invariant (map ?f (notifications s))"
    using assms(2) unfolding store_read_invariant_def
    by (rule list_all_map_keeps) (use assms(3) in \<open>simp add: read_invariant_def\<close>)
  ultimately show ?thesis by (simp add: store_read_invariant_def)
qed

lemma markAsRead_store_inv:
  assumes "markAsRead now n s = Inr (n', s')" and "store_read_invariant s"
  shows "store_read_invariant s'"
proof (cases "isRead n")
  case True
  with assms show ?thesis by (simp add: markAsRead_def)
next
  case False
  with assms(1) have "save_read (n\<lparr> isRead := True, readAt := Some now \<rparr>) s = Inr s'"
    by (auto simp: markAsRead_def Let_def split: sum.splits)
  from save_read_store_inv[OF this assms(2)] show ?thesis by (simp add: read_invariant_def)
qed

lemma markAsRead_doc_inv:
  "markAsRead now n s = Inr (n', s') \<Longrightarrow> read_invariant n \<Longrightarrow> read_invariant n'"
  by (auto simp: markAsRead_def save_read_def Let_def read_invariant_def
      split: if_splits sum.splits)

lemma markMultipleAsRead_store_inv:
  assumes "markMultipleAsRead now u ids s = Inr (k, s')" and "store_read_invariant s"
  shows "store_read_invariant s'"
proof -
  let ?q = "\<lambda>n. recipient n = u \<and> isRead n = False \<and>
                 (if length ids > 0 then n_id n \<in> set ids else True)"
  let ?f = "\<lambda>x. if ?q x then x\<lparr> isRead := True, readAt := Some now \<rparr> else x"
  from assms(1) have "notifications s' = map ?f (notifications s)"
    by (auto simp: markMultipleAsRead_def updateMany_eq Let_def split: if_splits)
  moreover have "list_all read_invariant (map ?f (notifications s))"
    using assms(2) unfolding store_read_invariant_def
    by (rule list_all_map_keeps) (simp add: read_invariant_def)
  ultimately show ?thesis by (simp add: store_read_invariant_def)
qed

text \<open>
  Claim C7. In a store whose notifications satisfy the invariant "\<open>readAt\<close> is set if and
  only if \<open>isRead\<close> is true", a notification created by \<^verbatim>\<open>createTaskNotification\<close> or
  \<^verbatim>\<open>createCommentNotification\<close> is unread with no \<open>readAt\<close>, and the store satisfies the
  invariant again after the creation, after \<^verbatim>\<open>markAsRead\<close> (which also keeps it on the
  document it returns) and after \<^verbatim>\<open>markMultipleAsRead\<close>.
\<close>

theorem read_invariant_preserved:
  "store_read_invariant s \<Longrightarrow>
     (createTaskNotification now r sd task ty s = (Some n, s1) \<longrightarrow>
        isRead n = False \<and> readAt n = None \<and> store_read_invariant s1) \<and>
     (createCommentNotification now r sd task txt s = (Some n, s2) \<longrightarrow>
        isRead n = False \<and> readAt n = None \<and> store_read_invariant s2) \<and>
     (markAsRead now m s = Inr (m', s3) \<longrightarrow>
        store_read_invariant s3 \<and> (read_invariant m \<longrightarrow> read_invariant m')) \<and>
     (markMultipleAsRead now u ids s = Inr (k, s4) \<longrightarrow> store_read_invariant s4)"
proof (intro conjI impI)
  assume inv: "store_read_invariant s"
  { assume "createTaskNotification now r sd task ty s = (Some n, s1)"
    then obtain data where d: "createNotification now data s = Inr (n, s1)"
      by (auto dest: createTaskNotification_cases)
    from createNotification_Inr[OF d] createNotification_store_inv[OF d inv]
    show "isRead n = False" "readAt n = None" "store_read_invariant s1" by simp_all }
  { assume "createCommentNotification now r sd task txt s = (Some n, s2)"
    then obtain data where d: "createNotification now data s = Inr (n, s2)"
      by (auto dest: createCommentNotification_cases)
    from createNotification_Inr[OF d] createNotification_store_inv[OF d inv]
    show "isRead n = False" "readAt n = None" "store_read_invariant s2" by simp_all }
  { assume m: "markAsRead now m s = Inr (m', s3)"
    from markAsRead_store_inv[OF m inv] show "store_read_invariant s3" .
    assume "read_invariant m"
    from markAsRead_doc_inv[OF m this] show "read_invariant m'" . }
  { assume "markMultipleAsRead now u ids s = Inr (k, s4)"
    from markMultipleAsRead_store_inv[OF this inv] show "store_read_invariant s4" . }
qed

theorem read_invariant_preserved_witness:
  "store_read_invariant db0 \<and>
   fst (createTaskNotification 1000 (ObjectId 1) (ObjectId 2) task20 ''task_updated'' db0) \<noteq> None \<and>
   store_read_invariant
     (snd (createTaskNotification 1000 (ObjectId 1) (ObjectId 2) task20 ''task_updated'' db0)) \<and>
   fst (createCommentNotification 1000 (ObjectId 1) (ObjectId 2) task20 ''Looks good'' db0) \<noteq> None \<and>
   store_read_invariant
     (snd (createCommentNotification 1000 (ObjectId 1) (ObjectId 2) task20 ''Looks good'' db0)) \<and>
   (\<exists>m' s3. markAsRead 1000 note30 db0 = Inr (m', s3) \<and> store_read_invariant s3 \<and>
       read_invariant m') \<and>
   (\<exists>k s4. markMultipleAsRead 1000 1 [] db0 = Inr (k, s4) \<and> store_read_invariant s4)"
proof -
  have h: "store_read_invariant db0"
    by (simp add: store_read_invariant_def read_invariant_def example_defs)
  obtain n s1 where c:
    "createTaskNotification 1000 (ObjectId 1) (ObjectId 2) task20 ''task_updated'' db0 = (Some n, s1)"
    by (simp add: helper_defs Let_def example_defs)
  obtain n2 s2 where c2:
    "createCommentNotification 1000 (ObjectId 1) (ObjectId 2) task20 ''Looks good'' db0 = (Some n2, s2)"
    by (simp add: helper_defs Let_def example_defs)
  obtain m' s3 where m: "markAsRead 1000 note30 db0 = Inr (m', s3)"
    by (simp add: markAsRead_def save_read_def Let_def example_defs)
  obtain k s4 where mm: "markMultipleAsRead 1000 1 [] db0 = Inr (k, s4)"
    by (simp add: markMultipleAsRead_def updateMany_eq Let_def example_defs)
  have r: "read_invariant note30" by (simp add: read_invariant_def note30_def)
  from read_invariant_preserved[OF h, where now = 1000 and r = "ObjectId 1" and sd = "ObjectId 2"
        and task = task20 and ty = "''task_updated''" and n = n and ?s1.0 = s1
        and m = note30 and m' = m' and ?s3.0 = s3 and u = 1 and ids = "[]" and k = k and ?s4.0 = s4]
    read_invariant_preserved[OF h, where now = 1000 and r = "ObjectId 1" and sd = "ObjectId 2"
        and task = task20 and ?txt.0 = "''Looks good''" and n = n2 and ?s2.0 = s2]
    c c2 m mm r h
  show ?thesis by auto
qed

section \<open>Marking a notification read twice\<close>

lemma find_map_same:
  "(\<And>x. P (f x) = P x) \<Longrightarrow> List.find P (map f xs) = map_option f (List.find P xs)"
  by (induction xs) auto

text \<open>
  Claim C8. \<^verbatim>\<open>markAsRead\<close> on an unread notification sets \<open>isRead\<close> and sets \<open>readAt\<close> to
  the current date; a second \<^verbatim>\<open>markAsRead\<close>, at any later date, returns the same document
  and the same store. The same holds through \<^verbatim>\<open>PATCH /:id/read\<close>: after a successful
  request, repeating it gives the same response and changes nothing.
\<close>

theorem markAsRead_idempotent:
  "(\<not> isRead n \<and> markAsRead t1 n s = Inr (n', s') \<longrightarrow>
      isRead n' \<and> readAt n' = Some t1 \<and> markAsRead t2 n' s' = Inr (n', s')) \<and>
   (patch_read t1 u (Some i) s = ((200, NotificationPayload n1), s1) \<longrightarrow>
      isRead n1 \<and> patch_read t2 u (Some i) s1 = ((200, NotificationPayload n1), s1))"
proof (intro conjI impI)
  assume a: "\<not> isRead n \<and> markAsRead t1 n s = Inr (n', s')"
  then have n': "n' = n\<lparr> isRead := True, readAt := Some t1 \<rparr>"
    by (auto simp: markAsRead_def Let_def split: sum.splits)
  show "isRead n'" "readAt n' = Some t1" "markAsRead t2 n' s' = Inr (n', s')"
    by (simp_all add: n' markAsRead_def)
next
  assume p: "patch_read t1 u (Some i) s = ((200, NotificationPayload n1), s1)"
  let ?q = "\<lambda>n. n_id n = i \<and> recipient n = u"
  from p have ok: "notif_ok s" by (auto simp: patch_read_def split: if_splits)
  from p ok obtain n where f: "List.find ?q (notifications s) = Some n"
    and m: "markAsRead t1 n s = Inr (n1, s1)"
    by (auto simp: patch_read_def findOne_def split: option.splits sum.splits)
  show "isRead n1" using m by (auto simp: markAsRead_def Let_def split: if_splits sum.splits)
  show "patch_read t2 u (Some i) s1 = ((200, NotificationPayload n1), s1)"
  proof (cases "isRead n")
    case True
    with m have "n1 = n" "s1 = s" by (auto simp: markAsRead_def)
    with p f ok True show ?thesis by (simp add: patch_read_def findOne_def markAsRead_def)
  next
    case False
    let ?f = "\<lambda>m. if n_id m = n_id n then m\<lparr> isRead := True, readAt := Some t1 \<rparr> else m"
    from False m ok have n1: "n1 = n\<lparr> isRead := True, readAt := Some t1 \<rparr>"
      and s1: "s1 = s\<lparr> notifications := map ?f (notifications s) \<rparr>"
      by (auto simp: markAsRead_def save_read_def Let_def)
    have "List.find ?q (map ?f (notifications s)) = map_option ?f (List.find ?q (notifications s))"
      by (rule find_map_same) simp
    with f have "List.find ?q (notifications s1) = Some n1" by (simp add: s1 n1)
    moreover have "notif_ok s1" using ok by (simp add: s1)
    moreover have "isRead n1" by (simp add: n1)
    ultimately show ?thesis by (simp add: patch_read_def findOne_def markAsRead_def)
  qed
qed

theorem markAsRead_idempotent_witness:
  "\<not> isRead note30 \<and>
   (\<exists>n' s'. markAsRead 1000 note30 db0 = Inr (n', s') \<and> isRead n' \<and> readAt n' = Some 1000 \<and>
      markAsRead 2000 n' s' = Inr (n', s')) \<and>
   (\<exists>n1 s1. patch_read 1000 1 (Some 30) db0 = ((200, NotificationPayload n1), s1) \<and>
      patch_read 2000 1 (Some 30) s1 = ((200, NotificationPayload n1), s1))"
proof -
  have u: "\<not> isRead note30" by (simp add: note30_def)
  obtain n' s' where m: "markAsRead 1000 note30 db0 = Inr (n', s')"
    by (simp add: markAsRead_def save_read_def Let_def example_defs)
  obtain n1 s1 where p: "patch_read 1000 1 (Some 30) db0 = ((200, NotificationPayload n1), s1)"
    by (simp add: patch_read_def findOne_def markAsRead_def save_read_def Let_def example_defs)
  from markAsRead_idempotent[of note30 1000 db0 n' s' 2000 1 30 n1 s1] u m p
  show ?thesis by auto
qed

section \<open>Notification operations are scoped by recipient\<close>

lemma filter_map_unchanged:
  "(\<And>x. x \<in> set xs \<Longrightarrow> P x \<Longrightarrow> f x = x) \<Longrightarrow> (\<And>x. P (f x) = P x) \<Longrightarrow>
     filter P (map f xs) = filter P xs"
  by (induction xs) auto

lemma filter_findOneAndDelete:
  "(\<And>x. q x \<Longrightarrow> \<not> P x) \<Longrightarrow> filter P (snd (findOneAndDelete q xs)) = filter P xs"
  by (induction xs) (auto split: prod.splits)

lemma find_Some_mem: "List.find P xs = Some x \<Longrightarrow> x \<in> set xs \<and> P x"
  by (induction xs) (auto split: if_splits)

lemma distinct_same_id:
  "distinct (map f xs) \<Longrightarrow> x \<in> set xs \<Longrightarrow> y \<in> set xs \<Longrightarrow> f x = f y \<Longrightarrow> x = y"
  by (meson distinct_map inj_onD)

lemma patch_read_others:
  assumes d: "distinct (map n_id (notifications s))"
  shows "others u (snd (patch_read now u nid s)) = others u s"
proof (cases "\<exists>i n. nid = Some i \<and> notif_ok s \<and>
    List.find (\<lambda>n. n_id n = i \<and> recipient n = u) (notifications s) = Some n \<and> \<not> isRead n")
  case False
  then show ?thesis
    by (auto simp: patch_read_def findOne_def markAsRead_def split: option.splits)
next
  case True
  then obtain i n where nid: "nid = Some i" and ok: "notif_ok s"
    and f: "List.find (\<lambda>n. n_id n = i \<and> recipient n = u) (notifications s) = Some n"
    and unread: "\<not> isRead n" by blast
  from find_Some_mem[OF f] have mem: "n \<in> set (notifications s)" and rec: "recipient n = u" by auto
  let ?f = "\<lambda>m. if n_id m = n_id n then m\<lparr> isRead := True, readAt := Some now \<rparr> else m"
  have s': "snd (patch_read now u nid s) = s\<lparr> notifications := map ?f (notifications s) \<rparr>"
    using nid ok f unread by (simp add: patch_read_def findOne_def markAsRead_def save_read_def Let_def)
  have "filter (\<lambda>n. recipient n \<noteq> u) (map ?f (notifications s)) =
        filter (\<lambda>n. recipient n \<noteq> u) (notifications s)"
  proof (rule filter_map_unchanged)
    fix x assume "x \<in> set (notifications s)" "recipient x \<noteq> u"
    with distinct_same_id[OF d _ mem] rec have "n_id x \<noteq> n_id n" by blast
    then show "?f x = x" by simp
  qed simp
  then show ?thesis by (simp add: others_def s')
qed

lemma mark_all_read_others: "others u (snd (mark_all_read now u ids s)) = others u s"
proof -
  have "\<And>q. filter (\<lambda>n. recipient n \<noteq> u)
          (map (\<lambda>x. if recipient x = u \<and> q x then x\<lparr> isRead := True, readAt := Some now \<rparr> else x)
             (notifications s)) = filter (\<lambda>n. recipient n \<noteq> u) (notifications s)"
    by (rule filter_map_unchanged) auto
  then show ?thesis
    by (simp add: mark_all_read_def markMultipleAsRead_def updateMany_eq others_def Let_def)
qed

lemma delete_notification_others: "others u (snd (delete_notification u nid s)) = others u s"
proof (cases nid)
  case None
  then show ?thesis by (simp add: delete_notification_def)
next
  case (Some i)
  let ?q = "\<lambda>n. n_id n = i \<and> recipient n = u"
  obtain found ns where r: "findOneAndDelete ?q (notifications s) = (found, ns)"
    by (cases "findOneAndDelete ?q (notifications s)")
  have "filter (\<lambda>n. recipient n \<noteq> u) (snd (findOneAndDelete ?q (notifications s))) =
        filter (\<lambda>n. recipient n \<noteq> u) (notifications s)"
    by (rule filter_findOneAndDelete) simp
  with r have "filter (\<lambda>n. recipient n \<noteq> u) ns = filter (\<lambda>n. recipient n \<noteq> u) (notifications s)"
    by simp
  with Some r show ?thesis
    by (simp add: delete_notification_def others_def split: option.splits)
qed

lemma clear_all_others: "others u (snd (clear_all u s)) = others u s"
  by (auto simp: clear_all_def deleteMany_eq others_def Let_def intro: filter_cong)

text \<open>
  Claim C10. In a store whose notification ids are unique (MongoDB's \<^verbatim>\<open>_id\<close> index), the
  handlers for mark-as-read, mark-all-read, delete and clear-all, run for the user \<open>u\<close>,
  leave the notifications of every other recipient exactly as they were: the same
  documents, unchanged and in the same order.
\<close>

theorem only_own_notifications_touched:
  "distinct (map n_id (notifications s)) \<Longrightarrow>
     others u (snd (patch_read now u nid s)) = others u s \<and>
     others u (snd (mark_all_read now u ids s)) = others u s \<and>
     others u (snd (delete_notification u nid s)) = others u s \<and>
     others u (snd (clear_all u s)) = others u s"
  by (simp add: patch_read_others mark_all_read_others delete_notification_others clear_all_others)

theorem only_own_notifications_touched_witness:
  "distinct (map n_id (notifications db0)) \<and>
   others 1 (snd (patch_read 1000 1 (Some 30) db0)) = [note31] \<and>
   others 1 (snd (mark_all_read 1000 1 None db0)) = [note31] \<and>
   others 2 (snd (delete_notification 2 (Some 31) db0)) = [note30] \<and>
   others 2 (snd (clear_all 2 db0)) = [note30]"
proof -
  have d: "distinct (map n_id (notifications db0))" by (simp add: example_defs)
  have o1: "others 1 db0 = [note31]" and o2: "others 2 db0 = [note30]"
    by (simp_all add: others_def example_defs)
  from only_own_notifications_touched[OF d, of 1 1000 "Some 30" None]
       only_own_notifications_touched[OF d, of 2 1000 "Some 31" None] d o1 o2
  show ?thesis by simp
qed

section \<open>Cleanup of the activity log\<close>

lemmas parseInt_defs = parseInt_def is_space_def is_digit_def digit_of_def digits_value_def

lemma setDate_back_fixed:
  assumes "offset_at_utc z = (\<lambda>t. off)" and "offset_at_local z = (\<lambda>t. off)"
  shows "setDate_back z t d =
           (if abs (t - d * 86400000) \<le> 8640000000000000 then Some (t - d * 86400000)
            else None)"
proof -
  let ?u = "((t + off) div 86400000 - d) * 86400000 + (t + off) mod 86400000 - off"
  have u: "?u = t - d * 86400000"
    by (simp add: algebra_simps)
  have "setDate_back z t d = (if abs ?u \<le> 8640000000000000 then Some ?u else None)"
    unfolding setDate_back_def Let_def assms ms_per_day_def max_time_def by (rule refl)
  then show ?thesis by (simp only: u)
qed

text \<open>
  Claim C9, as stated, fails. With the retention value \<open>-200000000\<close> every entry of the
  store is older than \<open>now\<close> minus that many days, so all should be deleted and counted;
  with \<open>200000000\<close> none is, and the count 0 should be returned. In both cases the cutoff
  is outside the range of dates: the handler answers 500, returns no count and deletes
  nothing.
\<close>

theorem cleanup_invalid_date_counterexample:
  "log_ok db0 \<and>
   list_all (\<lambda>a. a_createdAt a < 86400300 - (- 200000000) * 86400000) (activityLogs db0) \<and>
   cleanup utc_zone 86400300 (Some ''-200000000'') db0 =
     ((500, Message ''Server error cleaning up activity logs''), db0) \<and>
   cleanup utc_zone 86400300 (Some ''200000000'') db0 =
     ((500, Message ''Server error cleaning up activity logs''), db0)"
  by (simp add: cleanup_def setDate_back_def ms_per_day_def max_time_def utc_zone_def
      parseInt_defs example_defs Let_def)

text \<open>
  Claim C9, amended. Let the activity log collection be reachable, let the server's local
  time have a fixed offset from UTC, and let \<^verbatim>\<open>parseInt\<close> read the retention value
  \<open>daysToKeep\<close> (90 when missing) as the whole number \<open>d\<close>. When \<open>now\<close> minus \<open>d\<close> days is
  within the range of dates, the cleanup answers 200 with the number of entries whose
  creation date is strictly before it, and the store afterwards holds exactly the other
  entries, unchanged and in the same order; nothing else changes. When it is outside the
  range, or \<^verbatim>\<open>parseInt\<close> reads no number, the cleanup answers 500 and the store is
  unchanged.
\<close>

theorem cleanup_removes_older:
  assumes "log_ok s"
    and "offset_at_utc z = (\<lambda>t. off)" and "offset_at_local z = (\<lambda>t. off)"
    and "days = parseInt (case daysToKeep of None \<Rightarrow> ''90'' | Some v \<Rightarrow> v)"
  shows "(days = Some d \<and> cutoff = now - d * 86400000 \<and> abs cutoff \<le> 8640000000000000 \<longrightarrow>
            cleanup z now daysToKeep s =
              ((200, DeletedCount (length (filter (\<lambda>a. a_createdAt a < cutoff) (activityLogs s)))),
               s\<lparr> activityLogs := filter (\<lambda>a. \<not> a_createdAt a < cutoff) (activityLogs s) \<rparr>)) \<and>
         (days = None \<or> (days = Some d \<and> abs (now - d * 86400000) > 8640000000000000) \<longrightarrow>
            cleanup z now daysToKeep s =
              ((500, Message ''Server error cleaning up activity logs''), s))"
  using assms(1) assms(4)[symmetric]
  by (auto simp: cleanup_def setDate_back_fixed[OF assms(2,3)] deleteMany_eq Let_def)

theorem cleanup_removes_older_witness:
  "log_ok db0 \<and>
   parseInt ''90'' = Some 90 \<and> parseInt ''1'' = Some 1 \<and> parseInt ''soon'' = None \<and>
   cleanup utc_zone 7776000300 None db0 = ((200, DeletedCount 1), db0\<lparr> activityLogs := [log41] \<rparr>) \<and>
   cleanup plus_one_hour 86400300 (Some ''1'') db0 =
     ((200, DeletedCount 1), db0\<lparr> activityLogs := [log41] \<rparr>) \<and>
   cleanup utc_zone 86400300 (Some ''soon'') db0 =
     ((500, Message ''Server error cleaning up activity logs''), db0)"
proof -
  have ok: "log_ok db0" by (simp add: db0_def)
  have z0: "offset_at_utc utc_zone = (\<lambda>t. 0)" "offset_at_local utc_zone = (\<lambda>t. 0)"
    by (simp_all add: utc_zone_def)
  have z1: "offset_at_utc plus_one_hour = (\<lambda>t. 3600000)"
    "offset_at_local plus_one_hour = (\<lambda>t. 3600000)"
    by (simp_all add: plus_one_hour_def)
  have p: "parseInt ''90'' = Some 90" "parseInt ''1'' = Some 1" "parseInt ''soon'' = None"
    by (simp_all add: parseInt_defs Let_def)
  have logs: "filter (\<lambda>a. a_createdAt a < 300) (activityLogs db0) = [log40]"
    "filter (\<lambda>a. \<not> a_createdAt a < 300) (activityLogs db0) = [log41]"
    by (simp_all add: example_defs)
  from cleanup_removes_older[OF ok z0 refl, where daysToKeep = None and d = 90
        and now = 7776000300 and cutoff = 300]
    cleanup_removes_older[OF ok z1 refl, where daysToKeep = "Some ''1''" and d = 1
        and now = 86400300 and cutoff = 300]
    cleanup_removes_older[OF ok z0 refl, where daysToKeep = "Some ''soon''" and d = 0
        and now = 86400300 and cutoff = 0]
    ok p logs
  show ?thesis by simp
qed

section \<open>Event types outside the switch\<close>

text \<open>
  Claim C4, as stated, fails: for an event type outside the four of the \<^verbatim>\<open>switch\<close>,
  with different recipient and sender and the store reachable, the call does not fail and
  the generic title is chosen, but no record is created when the type is not in the enum
  of the Notification schema: validation rejects the document and the \<^verbatim>\<open>catch\<close>
  returns \<^verbatim>\<open>null\<close>.
\<close>

theorem unknown_type_counterexample:
  "''task_archived'' \<notin> set known_task_events \<and> ObjectId 1 \<noteq> ObjectId 2 \<and> notif_ok db0 \<and>
   fst (task_template ''task_archived'' task20) = ''Task Notification'' \<and>
   createTaskNotification 1000 (ObjectId 1) (ObjectId 2) task20 ''task_archived'' db0 = (None, db0)"
  by (simp add: known_task_events_def createTaskNotification_def createTaskNotification_try_def
      createNotification_def task_template_def notification_types_def Let_def db0_def)

text \<open>
  Claim C4, amended. For an event type outside the four of the \<^verbatim>\<open>switch\<close> and user
  identifiers with recipient different from sender, \<^verbatim>\<open>createTaskNotification\<close> always
  returns, and the generic title "Task Notification" is chosen. Exactly one record, with
  that title, is created when the type is in the enum of the Notification schema (that is,
  \<open>comment_added\<close> or \<open>project_assigned\<close>) and the store is reachable; otherwise the
  result is \<^verbatim>\<open>null\<close> and the store is unchanged.
\<close>

theorem unknown_type_fallback:
  "type \<notin> set known_task_events \<Longrightarrow> ri \<noteq> si \<Longrightarrow>
     fst (task_template type task) = ''Task Notification'' \<and>
     (if type \<in> set notification_types \<and> notif_ok s
      then \<exists>n. createTaskNotification now (ObjectId ri) (ObjectId si) task type s =
                  (Some n, s\<lparr> notifications := notifications s @ [n],
                              next_id := Suc (next_id s) \<rparr>) \<and>
               n_type n = type \<and> n_title n = ''Task Notification'' \<and>
               recipient n = ri \<and> sender n = si
      else createTaskNotification now (ObjectId ri) (ObjectId si) task type s = (None, s))"
  by (simp add: known_task_events_def createTaskNotification_def createTaskNotification_try_def
      createNotification_def task_template_def Let_def dq_def)

theorem unknown_type_fallback_witness:
  "''comment_added'' \<notin> set known_task_events \<and> (1::nat) \<noteq> 2 \<and>
   fst (createTaskNotification 1000 (ObjectId 1) (ObjectId 2) task20 ''comment_added'' db0) \<noteq> None \<and>
   createTaskNotification 1000 (ObjectId 1) (ObjectId 2) task20 ''project_archived'' db0 = (None, db0)"
proof -
  have a: "''comment_added'' \<notin> set known_task_events" "''project_archived'' \<notin> set known_task_events"
    by (simp_all add: known_task_events_def)
  have b: "(1::nat) \<noteq> 2" by simp
  have c: "''comment_added'' \<in> set notification_types \<and> notif_ok db0"
     "\<not> (''project_archived'' \<in> set notification_types \<and> notif_ok db0)"
    by (simp_all add: notification_types_def db0_def)
  from unknown_type_fallback[OF a(1) b, of task20 db0 1000]
       unknown_type_fallback[OF a(2) b, of task20 db0 1000] a b c
  show ?thesis by auto
qed

section \<open>Failures of the side effects\<close>

lemma createTaskNotification_result:
  "createTaskNotification now r sd task ty s = (res, s') \<Longrightarrow>
     (res = None \<and> s' = s) \<or>
     (\<exists>n. res = Some n \<and> notif_ok s \<and>
          s' = s\<lparr> notifications := notifications s @ [n], next_id := Suc (next_id s) \<rparr>)"
  by (auto simp: createTaskNotification_def createTaskNotification_try_def createNotification_def
      Let_def split: sum.splits if_splits prod.splits option.splits)

lemma createCommentNotification_result:
  "createCommentNotification now r sd task txt s = (res, s') \<Longrightarrow>
     (res = None \<and> s' = s) \<or>
     (\<exists>n. res = Some n \<and> notif_ok s \<and>
          s' = s\<lparr> notifications := notifications s @ [n], next_id := Suc (next_id s) \<rparr>)"
  by (auto simp: createCommentNotification_def createCommentNotification_try_def
      createNotification_def Let_def split: sum.splits if_splits prod.splits option.splits)

lemma logActivity_result:
  "logActivity now data s = (res, s') \<Longrightarrow>
     (res = None \<and> s' = s) \<or>
     (\<exists>l. res = Some l \<and> log_ok s \<and>
          s' = s\<lparr> activityLogs := activityLogs s @ [l], next_id := Suc (next_id s) \<rparr>)"
  by (auto simp: logActivity_def logActivity_try_def Let_def
      split: sum.splits if_splits prod.splits option.splits)


lemma primary_createTaskNotification [simp]:
  "primary_part (snd (createTaskNotification now r sd task ty s)) = primary_part s"
  using createTaskNotification_result[of now r sd task ty s]
  by (cases "createTaskNotification now r sd task ty s") (auto simp: primary_part_def)

lemma primary_createCommentNotification [simp]:
  "primary_part (snd (createCommentNotification now r sd task txt s)) = primary_part s"
  using createCommentNotification_result[of now r sd task "txt" s]
  by (cases "createCommentNotification now r sd task txt s") (auto simp: primary_part_def)

lemma primary_logActivity [simp]: "primary_part (snd (logActivity now data s)) = primary_part s"
  using logActivity_result[of now data s]
  by (cases "logActivity now data s") (auto simp: primary_part_def)

lemma primary_logTaskActivity [simp]:
  "primary_part (snd (logTaskActivity now u act task pt md s)) = primary_part s"
  by (simp add: logTaskActivity_def Let_def)

lemma primary_logCommentActivity [simp]:
  "primary_part (snd (logCommentActivity now u act task c s)) = primary_part s"
  by (simp add: logCommentActivity_def Let_def)

lemma primary_put_notify [simp]: "primary_part (put_notify now u ex upd t s) = primary_part s"
  by (simp add: put_notify_def Let_def split: option.splits)

lemma primary_put_log [simp]: "primary_part (put_log now u ex upd t s) = primary_part s"
  by (simp add: put_log_def Let_def)

lemma primary_patch_notify [simp]: "primary_part (patch_notify now u t st t' s) = primary_part s"
  by (simp add: patch_notify_def)

lemma primary_send [simp]:
  "primary_part (send_comment_notifications now rs u task txt s) = primary_part s"
  by (induction rs arbitrary: s) simp_all

lemma primary_flags [simp]: "primary_part (s\<lparr> notif_ok := a, log_ok := b \<rparr>) = primary_part s"
  by (simp add: primary_part_def)

lemma primary_tasks: "primary_part s = primary_part t \<Longrightarrow> tasks s = tasks t"
  by (simp add: primary_part_def)

lemma patch_status_primary:
  "fst (patch_status now u tid st (s\<lparr> notif_ok := a, log_ok := b \<rparr>)) = fst (patch_status now u tid st s) \<and>
   primary_part (snd (patch_status now u tid st (s\<lparr> notif_ok := a, log_ok := b \<rparr>))) =
   primary_part (snd (patch_status now u tid st s))"
  by (simp add: patch_status_def findByIdAndUpdate_def Let_def primary_part_def[of "_\<lparr>tasks := _\<rparr>"]
      split: option.splits)


lemma exists_flags [simp]:
  "user_exists (s\<lparr> notif_ok := a, log_ok := b \<rparr>) = user_exists s"
  "project_exists (s\<lparr> notif_ok := a, log_ok := b \<rparr>) = project_exists s"
  by (simp_all add: fun_eq_iff user_exists_def project_exists_def)

lemma update_task_primary:
  "fst (update_task now u tid body (s\<lparr> notif_ok := a, log_ok := b \<rparr>)) = fst (update_task now u tid body s) \<and>
   primary_part (snd (update_task now u tid body (s\<lparr> notif_ok := a, log_ok := b \<rparr>))) =
   primary_part (snd (update_task now u tid body s))"
  by (simp add: update_task_def findByIdAndUpdate_def Let_def
      primary_part_def[of "_\<lparr>tasks := _\<rparr>"] split: option.splits)

lemma notificationRecipients_flags:
  "users s = users t \<Longrightarrow> notificationRecipients s u task = notificationRecipients t u task"
  by (simp add: notificationRecipients_def populate_user_def)

lemma add_comment_primary:
  "fst (add_comment now u tid txt (s\<lparr> notif_ok := a, log_ok := b \<rparr>)) = fst (add_comment now u tid txt s) \<and>
   primary_part (snd (add_comment now u tid txt (s\<lparr> notif_ok := a, log_ok := b \<rparr>))) =
   primary_part (snd (add_comment now u tid txt s))"
proof -
  have r: "\<And>x task. notificationRecipients (s\<lparr>notif_ok := a, log_ok := b, tasks := x, next_id := Suc (next_id s)\<rparr>) u task
      = notificationRecipients (s\<lparr>tasks := x, next_id := Suc (next_id s)\<rparr>) u task"
    by (rule notificationRecipients_flags) simp
  show ?thesis
    by (simp add: add_comment_def Let_def r
        primary_part_def[of "_\<lparr>tasks := _, next_id := _\<rparr>"] split: option.splits sum.splits)
qed

lemma create_task_primary:
  "fst (create_task now u cb (s\<lparr> notif_ok := a, log_ok := b \<rparr>)) = fst (create_task now u cb s) \<and>
   primary_part (snd (create_task now u cb (s\<lparr> notif_ok := a, log_ok := b \<rparr>))) =
   primary_part (snd (create_task now u cb s))"
  by (simp add: create_task_def Let_def
      primary_part_def[of "_\<lparr>tasks := _, next_id := _\<rparr>"] split: option.splits)

text \<open>
  Claim C6. Whatever error the body of the \<^verbatim>\<open>try\<close> raises, \<^verbatim>\<open>createTaskNotification\<close>,
  \<^verbatim>\<open>createCommentNotification\<close> and \<^verbatim>\<open>logActivity\<close> return \<^verbatim>\<open>null\<close> and leave the store
  as it was; in particular when the store rejects the write. When they return a record,
  the record is the one appended to the collection. The response of the task routes and
  what they leave in the users, projects and tasks are the same whether or not the
  notification and activity log collections are reachable.
\<close>

theorem side_effect_failures_swallowed:
  "(createTaskNotification_try now r sd task ty s = Inl e \<longrightarrow>
      createTaskNotification now r sd task ty s = (None, s)) \<and>
   (createCommentNotification_try now r sd task txt s = Inl e \<longrightarrow>
      createCommentNotification now r sd task txt s = (None, s)) \<and>
   (logActivity_try now data s = Inl e \<longrightarrow> logActivity now data s = (None, s)) \<and>
   (\<not> notif_ok s \<longrightarrow>
      createTaskNotification now r sd task ty s = (None, s) \<and>
      createCommentNotification now r sd task txt s = (None, s)) \<and>
   (\<not> log_ok s \<longrightarrow> logActivity now data s = (None, s)) \<and>
   (createTaskNotification now r sd task ty s = (Some n, s1) \<longrightarrow>
      s1 = s\<lparr> notifications := notifications s @ [n], next_id := Suc (next_id s) \<rparr>) \<and>
   (createCommentNotification now r sd task txt s = (Some n, s2) \<longrightarrow>
      s2 = s\<lparr> notifications := notifications s @ [n], next_id := Suc (next_id s) \<rparr>) \<and>
   (logActivity now data s = (Some l, s3) \<longrightarrow>
      s3 = s\<lparr> activityLogs := activityLogs s @ [l], next_id := Suc (next_id s) \<rparr>) \<and>
   (let s' = s\<lparr> notif_ok := a, log_ok := b \<rparr> in
      fst (create_task now u cb s') = fst (create_task now u cb s) \<and>
      primary_part (snd (create_task now u cb s')) = primary_part (snd (create_task now u cb s)) \<and>
      fst (update_task now u tid body s') = fst (update_task now u tid body s) \<and>
      primary_part (snd (update_task now u tid body s')) = primary_part (snd (update_task now u tid body s)) \<and>
      fst (patch_status now u tid st s') = fst (patch_status now u tid st s) \<and>
      primary_part (snd (patch_status now u tid st s')) = primary_part (snd (patch_status now u tid st s)) \<and>
      fst (add_comment now u tid txt' s') = fst (add_comment now u tid txt' s) \<and>
      primary_part (snd (add_comment now u tid txt' s')) = primary_part (snd (add_comment now u tid txt' s)))"
proof -
  have 1: "createTaskNotification_try now r sd task ty s = Inl e \<longrightarrow>
      createTaskNotification now r sd task ty s = (None, s)"
    by (simp add: createTaskNotification_def)
  have 2: "createCommentNotification_try now r sd task txt s = Inl e \<longrightarrow>
      createCommentNotification now r sd task txt s = (None, s)"
    by (simp add: createCommentNotification_def)
  have 3: "logActivity_try now data s = Inl e \<longrightarrow> logActivity now data s = (None, s)"
    by (simp add: logActivity_def)
  have 4: "\<not> notif_ok s \<longrightarrow>
      createTaskNotification now r sd task ty s = (None, s) \<and>
      createCommentNotification now r sd task txt s = (None, s)"
    using createTaskNotification_result[of now r sd task ty s]
      createCommentNotification_result[of now r sd task "txt" s]
    by (cases "createTaskNotification now r sd task ty s";
        cases "createCommentNotification now r sd task txt s") auto
  have 5: "\<not> log_ok s \<longrightarrow> logActivity now data s = (None, s)"
    using logActivity_result[of now data s] by (cases "logActivity now data s") auto
  have 6: "createTaskNotification now r sd task ty s = (Some n, s1) \<longrightarrow>
      s1 = s\<lparr> notifications := notifications s @ [n], next_id := Suc (next_id s) \<rparr>"
    by (auto dest: createTaskNotification_result)
  have 7: "createCommentNotification now r sd task txt s = (Some n, s2) \<longrightarrow>
      s2 = s\<lparr> notifications := notifications s @ [n], next_id := Suc (next_id s) \<rparr>"
    by (auto dest: createCommentNotification_result)
  have 8: "logActivity now data s = (Some l, s3) \<longrightarrow>
      s3 = s\<lparr> activityLogs := activityLogs s @ [l], next_id := Suc (next_id s) \<rparr>"
    by (auto dest: logActivity_result)
  show ?thesis
    unfolding Let_def
    by (intro conjI 1 2 3 4 5 6 7 8 create_task_primary[THEN conjunct1]
        create_task_primary[THEN conjunct2] update_task_primary[THEN conjunct1]
        update_task_primary[THEN conjunct2] patch_status_primary[THEN conjunct1]
        patch_status_primary[THEN conjunct2] add_comment_primary[THEN conjunct1]
        add_comment_primary[THEN conjunct2])
qed

theorem side_effect_failures_swallowed_witness:
  "createTaskNotification 1000 (ObjectId 2) (ObjectId 1) task20 ''task_completed''
     (db2\<lparr> notif_ok := False, log_ok := False \<rparr>) = (None, db2\<lparr> notif_ok := False, log_ok := False \<rparr>) \<and>
   createCommentNotification 1000 (ObjectId 2) (ObjectId 1) task20 ''Looks good''
     (db2\<lparr> notif_ok := False, log_ok := False \<rparr>) = (None, db2\<lparr> notif_ok := False, log_ok := False \<rparr>) \<and>
   logActivity 1000 login_activity (db2\<lparr> notif_ok := False, log_ok := False \<rparr>) =
     (None, db2\<lparr> notif_ok := False, log_ok := False \<rparr>) \<and>
   (\<exists>n. createTaskNotification 1000 (ObjectId 2) (ObjectId 1) task20 ''task_completed'' db2 =
          (Some n, db2\<lparr> notifications := notifications db2 @ [n], next_id := Suc (next_id db2) \<rparr>)) \<and>
   (\<exists>n. createCommentNotification 1000 (ObjectId 2) (ObjectId 1) task20 ''Looks good'' db2 =
          (Some n, db2\<lparr> notifications := notifications db2 @ [n], next_id := Suc (next_id db2) \<rparr>)) \<and>
   (\<exists>l. logActivity 1000 login_activity db2 =
          (Some l, db2\<lparr> activityLogs := activityLogs db2 @ [l], next_id := Suc (next_id db2) \<rparr>)) \<and>
   fst (patch_status 1000 1 (Some 20) (Some ''completed'') (db2\<lparr> notif_ok := False, log_ok := False \<rparr>)) =
     fst (patch_status 1000 1 (Some 20) (Some ''completed'') db2)"
proof -
  let ?down = "db2\<lparr> notif_ok := False, log_ok := False \<rparr>"
  have d: "\<not> notif_ok ?down" "\<not> log_ok ?down" by simp_all
  obtain n s1 where c1:
    "createTaskNotification 1000 (ObjectId 2) (ObjectId 1) task20 ''task_completed'' db2 = (Some n, s1)"
    by (simp add: helper_defs example_defs Let_def)
  obtain m s2 where c2:
    "createCommentNotification 1000 (ObjectId 2) (ObjectId 1) task20 ''Looks good'' db2 = (Some m, s2)"
    by (simp add: helper_defs example_defs Let_def)
  obtain l s3 where c3: "logActivity 1000 login_activity db2 = (Some l, s3)"
    by (simp add: login_activity_def helper_defs example_defs Let_def)
  from side_effect_failures_swallowed[where s = ?down and now = 1000 and r = "ObjectId 2"
      and sd = "ObjectId 1" and task = task20 and ty = "''task_completed''"
      and ?txt.0 = "''Looks good''" and data = login_activity]
    side_effect_failures_swallowed[where s = db2 and now = 1000 and r = "ObjectId 2"
      and sd = "ObjectId 1" and task = task20 and ty = "''task_completed''" and n = n and ?s1.0 = s1
      and ?txt.0 = "''Looks good''" and data = login_activity and l = l and ?s3.0 = s3
      and a = False and b = False and u = 1 and tid = "Some 20" and st = "Some ''completed''"]
    side_effect_failures_swallowed[where s = db2 and now = 1000 and r = "ObjectId 2"
      and sd = "ObjectId 1" and task = task20 and ?txt.0 = "''Looks good''" and n = m and ?s2.0 = s2]
    d c1 c2 c3
  show ?thesis by (simp add: Let_def)
qed

section \<open>The completion invariant of tasks\<close>

lemma status_updates_invariant:
  "completed_invariant t \<Longrightarrow> completed_invariant (apply_updates (status_updates now t st) t)"
  by (simp add: completed_invariant_def apply_updates_def status_updates_def Let_def)

lemma create_task_invariant:
  "create_task now u cb s = ((201, TaskPayload t), s') \<Longrightarrow> completed_invariant t"
  by (auto simp: create_task_def completed_invariant_def pre_save_def Let_def
      split: if_splits option.splits)

lemma patch_status_invariant:
  assumes "patch_status now u (Some tid) st s = ((200, TaskPayload t'), s')"
    and "findById tid (tasks s) = Some t" and "completed_invariant t"
  shows "completed_invariant t'"
proof -
  from assms(1,2) obtain x where "t' = apply_updates (status_updates now t x) t"
    by (auto simp: patch_status_def findByIdAndUpdate_def Let_def split: option.splits if_splits)
  with status_updates_invariant[OF assms(3)] show ?thesis by simp
qed

lemma put_rename_on_completed_task:
  "completed_invariant task22 \<and>
   fst (update_task 1000 2 (Some 22) rename_only db2) =
     (200, TaskPayload (task22\<lparr> t_title := ''Shipped'', completedAt := None \<rparr>)) \<and>
   findById 22 (tasks (snd (update_task 1000 2 (Some 22) rename_only db2))) =
     Some (task22\<lparr> t_title := ''Shipped'', completedAt := None \<rparr>) \<and>
   \<not> completed_invariant (task22\<lparr> t_title := ''Shipped'', completedAt := None \<rparr>)"
  by (simp add: completed_invariant_def rename_only_def route_defs helper_defs example_defs
      Let_def)

text \<open>
  Claim C1 holds for the creation of a task and for the status PATCH (the lemmas above)
  but not for PUT. A PUT whose body carries no \<open>status\<close> takes the branch
  \<^verbatim>\<open>updates.status !== "completed"\<close> of "Handle task completion" and writes
  \<open>completedAt = null\<close>: on a completed task the status stays completed and the
  completion date is lost. The \<^verbatim>\<open>pre("save")\<close> hook, which acts only when the status is
  modified, does not run on \<^verbatim>\<open>findByIdAndUpdate\<close>. Here a task is created, completed
  through the status PATCH and then renamed through PUT.
\<close>

theorem put_without_status_clears_completedAt:
  "(let s1 = snd (create_task 1000 2 new_task_body db0);
        s2 = snd (patch_status 2000 1 (Some 50) (Some ''completed'') s1);
        s3 = snd (update_task 3000 2 (Some 50) rename_only s2)
    in status_and_date 50 s1 = Some (''todo'', None) \<and>
       status_and_date 50 s2 = Some (''completed'', Some 2000) \<and>
       status_and_date 50 s3 = Some (''completed'', None))"
  by (simp add: status_and_date_def new_task_body_def rename_only_def route_defs helper_defs
      example_defs Let_def)

section \<open>Notifications for a new comment\<close>

text \<open>
  Claim C3 fails on the code. User 4 comments on a task assigned to user 1, created by
  user 2, with earlier comments by users 1, 2 and 3. The assignee and the creator are
  notified; user 3 is not. The handler populates \<^verbatim>\<open>comments.author\<close> before it collects
  the commenters, so \<^verbatim>\<open>comment.author.toString()\<close> is the text of a user document: it is
  never equal to the commenting user's id, and as a recipient it fails the cast to an
  ObjectId, which \<^verbatim>\<open>createCommentNotification\<close> swallows.
\<close>

theorem comment_skips_prior_commenter:
  "fst (fst (add_comment 1000 4 (Some 21) (Some ''Looks good'') db2)) = 201 \<and>
   map (\<lambda>n. (n_type n, recipient n, sender n))
     (created db2 (snd (add_comment 1000 4 (Some 21) (Some ''Looks good'') db2))) =
     [(''comment_added'', 1, 4), (''comment_added'', 2, 4)]"
  by (simp add: created_def route_defs helper_defs example_defs Let_def)

section \<open>Notifications for a completed task\<close>

lemma completed_notification:
  assumes "c \<noteq> r" and "notif_ok s"
  shows "\<exists>n. createTaskNotification now (ObjectId c) (ObjectId r) task ''task_completed'' s =
            (Some n, s\<lparr> notifications := notifications s @ [n], next_id := Suc (next_id s) \<rparr>) \<and>
            n_type n = ''task_completed'' \<and> recipient n = c \<and> sender n = r"
  using assms
  by (simp add: createTaskNotification_def createTaskNotification_try_def createNotification_def
      task_template_def notification_types_def Let_def dq_def)

lemma notifications_logActivity [simp]:
  "notifications (snd (logActivity now data s)) = notifications s"
  using logActivity_result[of now data s] by (cases "logActivity now data s") auto

lemma notifications_put_log [simp]: "notifications (put_log now u ex upd t s) = notifications s"
  by (simp add: put_log_def logTaskActivity_def Let_def)

lemma created_same [simp]: "created s (s\<lparr> tasks := ts \<rparr>) = []"
  by (simp add: created_def)

lemma creator_notified_step:
  assumes "notif_ok s1" and "notifications s1 = notifications s"
  shows "creator_notified c r
           (created s (if c \<noteq> r
                       then snd (createTaskNotification now (ObjectId c) (ObjectId r) task
                                   ''task_completed'' s1)
                       else s1))"
proof (cases "c = r")
  case True
  then show ?thesis using assms by (simp add: creator_notified_def created_def)
next
  case False
  from completed_notification[OF False assms(1), of now task] obtain n where
    "createTaskNotification now (ObjectId c) (ObjectId r) task ''task_completed'' s1 =
       (Some n, s1\<lparr> notifications := notifications s1 @ [n], next_id := Suc (next_id s1) \<rparr>)"
    "n_type n = ''task_completed''" "recipient n = c" "sender n = r" by blast
  with False assms(2) show ?thesis by (simp add: creator_notified_def created_def)
qed

lemma patch_status_200:
  assumes "patch_status now r (Some tid) (Some st) s = ((200, TaskPayload t'), s')"
    and "findById tid (tasks s) = Some t"
  shows "s' = patch_notify now r t st (populate_task (s\<lparr> tasks := put_task t' (tasks s) \<rparr>) t')
                (s\<lparr> tasks := put_task t' (tasks s) \<rparr>)"
  using assms
  by (auto simp: patch_status_def findByIdAndUpdate_def Let_def split: if_splits)

lemma update_task_200:
  assumes "update_task now r (Some tid) body s = ((200, TaskPayload t'), s')"
    and "findById tid (tasks s) = Some t"
  shows "s' = put_log now r t (handle_completion now t body)
                (populate_task (s\<lparr> tasks := put_task t' (tasks s) \<rparr>) t')
                (put_notify now r t (handle_completion now t body)
                   (populate_task (s\<lparr> tasks := put_task t' (tasks s) \<rparr>) t')
                   (s\<lparr> tasks := put_task t' (tasks s) \<rparr>))"
  using assms
  by (auto simp: update_task_def findByIdAndUpdate_def Let_def split: if_splits)

lemma handle_completion_keeps [simp]:
  "up_status (handle_completion now t body) = up_status body"
  "up_assignee_id (handle_completion now t body) = up_assignee_id body"
  "isReassignment t (handle_completion now t body) = isReassignment t body"
  by (simp_all add: handle_completion_def isReassignment_def)

text \<open>
  Claim C5, as stated, fails for PUT: when the update that completes the task also
  changes the assignee, the handler takes the reassignment branch, notifies the new
  assignee with \<open>task_reassigned\<close> and sends no \<open>task_completed\<close> notification to the
  creator (user 2 here, the actor is user 4).
\<close>

theorem completion_with_reassignment_counterexample:
  "createdBy task20 \<noteq> 4 \<and> t_status task20 \<noteq> ''completed'' \<and>
   fst (update_task 1000 4 (Some 20) complete_and_reassign db2) =
     (200, TaskPayload (task20\<lparr> assignee_id := 3, t_status := ''completed'',
                                completedAt := Some 1000 \<rparr>)) \<and>
   map (\<lambda>n. (n_type n, recipient n, sender n))
     (created db2 (snd (update_task 1000 4 (Some 20) complete_and_reassign db2))) =
     [(''task_reassigned'', 3, 4)]"
  by (simp add: created_def complete_and_reassign_def route_defs helper_defs example_defs
      Let_def)

text \<open>
  Claim C5, amended. Let a task with creator \<open>c\<close> not be completed, and let the
  notification collection be reachable. A successful status PATCH to \<open>completed\<close> by the
  actor \<open>r\<close>, and a successful PUT by \<open>r\<close> whose body sets the status to \<open>completed\<close> and
  does not change the assignee, add exactly one notification, of type \<open>task_completed\<close>
  from \<open>r\<close> to \<open>c\<close>, when \<open>c \<noteq> r\<close>, and none when \<open>c = r\<close>.
\<close>

theorem completion_notifies_creator:
  assumes "findById tid (tasks s) = Some t" and "t_status t \<noteq> ''completed''" and "notif_ok s"
  shows "(patch_status now r (Some tid) (Some ''completed'') s = ((200, TaskPayload t'), s') \<longrightarrow>
            creator_notified (createdBy t) r (created s s')) \<and>
         (up_status body = Some ''completed'' \<and> \<not> isReassignment t body \<and>
          update_task now r (Some tid) body s = ((200, TaskPayload t''), s'') \<longrightarrow>
            creator_notified (createdBy t) r (created s s''))"
proof (intro conjI impI)
  assume "patch_status now r (Some tid) (Some ''completed'') s = ((200, TaskPayload t'), s')"
  let ?s1 = "s\<lparr> tasks := put_task t' (tasks s) \<rparr>"
  let ?p = "populate_task ?s1 t'"
  from patch_status_200[OF \<open>patch_status now r (Some tid) (Some ''completed'') s = ((200, TaskPayload t'), s')\<close> assms(1)]
  have "s' = patch_notify now r t ''completed'' ?p ?s1" .
  moreover have "creator_notified (createdBy t) r
      (created s (if createdBy t \<noteq> r
                  then snd (createTaskNotification now (ObjectId (createdBy t)) (ObjectId r) ?p
                              ''task_completed'' ?s1)
                  else ?s1))"
    by (rule creator_notified_step) (use assms(3) in simp_all)
  ultimately show "creator_notified (createdBy t) r (created s s')"
    using assms(2) by (simp add: patch_notify_def)
next
  assume a: "up_status body = Some ''completed'' \<and> \<not> isReassignment t body \<and>
          update_task now r (Some tid) body s = ((200, TaskPayload t''), s'')"
  let ?s1 = "s\<lparr> tasks := put_task t'' (tasks s) \<rparr>"
  let ?p = "populate_task ?s1 t''"
  let ?u = "handle_completion now t body"
  from a update_task_200[OF _ assms(1)]
  have "s'' = put_log now r t ?u ?p (put_notify now r t ?u ?p ?s1)" by blast
  then have "created s s'' = created s (put_notify now r t ?u ?p ?s1)"
    by (simp add: created_def)
  moreover have "put_notify now r t ?u ?p ?s1 =
      (if createdBy t \<noteq> r
       then snd (createTaskNotification now (ObjectId (createdBy t)) (ObjectId r) ?p
                   ''task_completed'' ?s1)
       else ?s1)"
    using a assms(2) by (simp add: put_notify_def)
  moreover have "creator_notified (createdBy t) r
      (created s (if createdBy t \<noteq> r
                  then snd (createTaskNotification now (ObjectId (createdBy t)) (ObjectId r) ?p
                              ''task_completed'' ?s1)
                  else ?s1))"
    by (rule creator_notified_step) (use assms(3) in simp_all)
  ultimately show "creator_notified (createdBy t) r (created s s'')" by simp
qed

theorem completion_notifies_creator_witness:
  "findById 20 (tasks db2) = Some task20 \<and> t_status task20 \<noteq> ''completed'' \<and> notif_ok db2 \<and>
   creator_notified 2 1
     (created db2 (snd (patch_status 1000 1 (Some 20) (Some ''completed'') db2))) \<and>
   creator_notified 2 2
     (created db2 (snd (patch_status 1000 2 (Some 20) (Some ''completed'') db2))) \<and>
   up_status complete_only = Some ''completed'' \<and> \<not> isReassignment task20 complete_only \<and>
   creator_notified 2 4
     (created db2 (snd (update_task 1000 4 (Some 20) complete_only db2)))"
proof -
  have f: "findById 20 (tasks db2) = Some task20"
    by (simp add: findById_def findOne_def example_defs)
  have st: "t_status task20 \<noteq> ''completed''" by (simp add: task20_def)
  have ok: "notif_ok db2" by (simp add: example_defs)
  have c: "createdBy task20 = 2" by (simp add: task20_def)
  have b: "up_status complete_only = Some ''completed''" "\<not> isReassignment task20 complete_only"
    by (simp_all add: isReassignment_def complete_only_def example_defs)
  obtain t1 s1 where p1:
    "patch_status 1000 1 (Some 20) (Some ''completed'') db2 = ((200, TaskPayload t1), s1)"
    by (simp add: route_defs helper_defs example_defs Let_def)
  obtain t2 s2 where p2:
    "patch_status 1000 2 (Some 20) (Some ''completed'') db2 = ((200, TaskPayload t2), s2)"
    by (simp add: route_defs helper_defs example_defs Let_def)
  obtain t3 s3 where p3:
    "update_task 1000 4 (Some 20) complete_only db2 = ((200, TaskPayload t3), s3)"
    by (simp add: complete_only_def route_defs helper_defs example_defs Let_def)
  from completion_notifies_creator[OF f st ok, of 1000 1 t1 s1 complete_only t3 s3]
       completion_notifies_creator[OF f st ok, of 1000 2 t2 s2 complete_only t3 s3]
       completion_notifies_creator[OF f st ok, of 1000 4 t1 s1 complete_only t3 s3]
       p1 p2 p3 b c f st ok
  show ?thesis by simp
qed

end
